theory Spec2Isabelle
  imports Complex_Main "HOL-Library.Multiset"
begin

section \<open>Python strings and regular expressions\<close>

text \<open>
  Texts are modelled as \<^typ>\<open>string\<close>, one \<^typ>\<open>char\<close> per character, for ASCII
  documents: \<open>str.lower\<close>, \<open>str.isspace\<close>, \<open>\s\<close> and \<open>\d\<close> are given by their
  ASCII tables.

  Python's \<open>float\<close> scores are modelled as \<^typ>\<open>rat\<close>. A ratio of the statistics
  is one quotient of two list lengths, compared with \<open>0.3\<close>, \<open>0.4\<close> or \<open>0.6\<close>: a
  quotient equal to the constant rounds to the same double as the constant (\<open>4 / 10\<close> is
  the double \<open>0.4\<close>), and a quotient different from it differs by at least
  \<open>1 / (10 * total)\<close>, far more than the rounding error for a list shorter than \<open>2^50\<close>.
  A classifier score is \<open>k / 14\<close> or \<open>j / 8\<close>, the Denial score possibly plus \<open>0.3\<close> and
  the Procedural score possibly plus \<open>0.2\<close>; with the keyword lists of the configuration
  no score that carries a bonus equals another category's score or the floor \<open>0.1\<close>, and
  two different scores differ by at least \<open>1 / 280\<close>. So every comparison of the program
  comes out on doubles as it does on the exact values. A fact-density score is a multiple
  of \<open>1 / 8\<close> and is exact as a double.
\<close>

datatype py_error = ZeroDivisionError

definition py_truediv :: "nat \<Rightarrow> nat \<Rightarrow> py_error + rat" where
  "py_truediv a b = (if b = 0 then Inl ZeroDivisionError else Inr (of_nat a / of_nat b))"

definition isspace :: "char \<Rightarrow> bool" where
  "isspace c = (c \<in> set [CHR 0x09, CHR 0x0A, CHR 0x0B, CHR 0x0C, CHR 0x0D,
                           CHR 0x1C, CHR 0x1D, CHR 0x1E, CHR 0x1F, CHR '' ''])"

definition isdigit :: "char \<Rightarrow> bool" where
  "isdigit c = (c \<in> set ''0123456789'')"

definition lower_char :: "char \<Rightarrow> char" where
  "lower_char c =
     (case map_of (zip ''ABCDEFGHIJKLMNOPQRSTUVWXYZ'' ''abcdefghijklmnopqrstuvwxyz'') c of
        Some l \<Rightarrow> l
      | None \<Rightarrow> c)"

definition lower :: "string \<Rightarrow> string" where
  "lower s = map lower_char s"

definition strip :: "string \<Rightarrow> string" where
  "strip s = rev (dropWhile isspace (rev (dropWhile isspace s)))"

fun startswith :: "string \<Rightarrow> string \<Rightarrow> bool" where
  "startswith s [] = True"
| "startswith [] (p # ps) = False"
| "startswith (c # cs) (p # ps) = (c = p \<and> startswith cs ps)"

text \<open>\<open>contains s sub\<close> is Python's \<open>sub in s\<close>.\<close>

fun contains :: "string \<Rightarrow> string \<Rightarrow> bool" where
  "contains [] sub = (sub = [])"
| "contains (c # cs) sub = (startswith (c # cs) sub \<or> contains cs sub)"

text \<open>\<open>split_words cur s\<close> is \<open>s.split()\<close>: the maximal runs of non-whitespace.\<close>

fun split_words :: "string \<Rightarrow> string \<Rightarrow> string list" where
  "split_words cur [] = (if cur = [] then [] else [rev cur])"
| "split_words cur (c # cs) =
     (if isspace c then (if cur = [] then split_words [] cs else rev cur # split_words [] cs)
      else split_words (c # cur) cs)"

text \<open>\<open>replace s old new\<close> is \<open>s.replace(old, new)\<close>.\<close>

function replace_nonempty :: "string \<Rightarrow> string \<Rightarrow> string \<Rightarrow> string" where
  "replace_nonempty [] old new = []"
| "replace_nonempty (c # cs) old new =
     (if old \<noteq> [] \<and> startswith (c # cs) old
      then new @ replace_nonempty (drop (length old) (c # cs)) old new
      else c # replace_nonempty cs old new)"
  by pat_completeness auto
termination
  by (relation "measure (\<lambda>(s, old, new). length s)") (auto simp: neq_Nil_conv)

definition replace :: "string \<Rightarrow> string \<Rightarrow> string \<Rightarrow> string" where
  "replace s old new =
     (if old = [] then new @ concat (map (\<lambda>c. c # new) s) else replace_nonempty s old new)"

definition slice :: "string \<Rightarrow> nat \<Rightarrow> nat \<Rightarrow> string" where
  "slice s a b = take (b - a) (drop a s)"

subsection \<open>The fragment of \<open>re\<close> the program uses\<close>

datatype cclass = Digit | Space | OneOf string | Union cclass cclass

datatype regex =
    Lit string
  | Cls cclass
  | Rep cclass nat "nat option"
  | Opt regex
  | Seq "regex list"
  | Alt "regex list"
  | Lookbehind cclass

text \<open>
  A position is the character before the cursor (for the one-character lookbehind) and the
  rest of the text. \<open>matches\<close> lists every way the pattern matches at a position, in the
  order a backtracking matcher tries them (alternatives left to right, greedy repetition
  longest first), so its head is the match Python finds there. \<open>ic\<close> is \<open>re.IGNORECASE\<close>.
\<close>

type_synonym pos = "char option \<times> string"

fun in_class :: "bool \<Rightarrow> cclass \<Rightarrow> char \<Rightarrow> bool" where
  "in_class ic Digit c = isdigit c"
| "in_class ic Space c = isspace c"
| "in_class ic (OneOf cs) c =
     (if ic then lower_char c \<in> set (map lower_char cs) else c \<in> set cs)"
| "in_class ic (Union a b) c = (in_class ic a c \<or> in_class ic b c)"

definition chr_eq :: "bool \<Rightarrow> char \<Rightarrow> char \<Rightarrow> bool" where
  "chr_eq ic a b = (if ic then lower_char a = lower_char b else a = b)"

fun lit_match :: "bool \<Rightarrow> string \<Rightarrow> pos \<Rightarrow> pos list" where
  "lit_match ic [] p = [p]"
| "lit_match ic (l # ls) (prev, []) = []"
| "lit_match ic (l # ls) (prev, c # cs) =
     (if chr_eq ic l c then lit_match ic ls (Some c, cs) else [])"

fun rep_positions :: "bool \<Rightarrow> cclass \<Rightarrow> nat \<Rightarrow> nat option \<Rightarrow> nat \<Rightarrow> pos \<Rightarrow> pos list" where
  "rep_positions ic k lo hi j (prev, []) = (if lo \<le> j then [(prev, [])] else [])"
| "rep_positions ic k lo hi j (prev, c # cs) =
     (if in_class ic k c \<and> (case hi of None \<Rightarrow> True | Some h \<Rightarrow> j < h)
      then rep_positions ic k lo hi (Suc j) (Some c, cs) else [])
     @ (if lo \<le> j then [(prev, c # cs)] else [])"

fun matches :: "bool \<Rightarrow> regex \<Rightarrow> pos \<Rightarrow> pos list"
  and matches_seq :: "bool \<Rightarrow> regex list \<Rightarrow> pos \<Rightarrow> pos list"
  and matches_alt :: "bool \<Rightarrow> regex list \<Rightarrow> pos \<Rightarrow> pos list" where
  "matches ic (Lit l) p = lit_match ic l p"
| "matches ic (Cls k) p =
     (case snd p of [] \<Rightarrow> [] | c # cs \<Rightarrow> if in_class ic k c then [(Some c, cs)] else [])"
| "matches ic (Rep k lo hi) p = rep_positions ic k lo hi 0 p"
| "matches ic (Opt r) p = matches ic r p @ [p]"
| "matches ic (Seq rs) p = matches_seq ic rs p"
| "matches ic (Alt rs) p = matches_alt ic rs p"
| "matches ic (Lookbehind k) p =
     (case fst p of None \<Rightarrow> [] | Some c \<Rightarrow> if in_class ic k c then [p] else [])"
| "matches_seq ic [] p = [p]"
| "matches_seq ic (r # rs) p = concat (map (matches_seq ic rs) (matches ic r p))"
| "matches_alt ic [] p = []"
| "matches_alt ic (r # rs) p = matches ic r p @ matches_alt ic rs p"

text \<open>
  \<open>scan\<close> walks the text from left to right and returns the spans \<open>(start, end)\<close> of the
  non-overlapping matches, as \<open>re.finditer\<close> does; \<open>skip\<close> counts the characters still
  covered by the last match. No pattern of the program matches the empty string.
\<close>

fun scan :: "bool \<Rightarrow> regex \<Rightarrow> nat \<Rightarrow> nat \<Rightarrow> char option \<Rightarrow> string \<Rightarrow> (nat \<times> nat) list" where
  "scan ic r skip i prev [] =
     (if skip = 0 \<and> matches ic r (prev, []) \<noteq> [] then [(i, i)] else [])"
| "scan ic r (Suc k) i prev (c # cs) = scan ic r k (Suc i) (Some c) cs"
| "scan ic r 0 i prev (c # cs) =
     (case matches ic r (prev, c # cs) of
        [] \<Rightarrow> scan ic r 0 (Suc i) (Some c) cs
      | q # _ \<Rightarrow>
          (let n = length (c # cs) - length (snd q)
           in (i, i + n) # scan ic r (n - 1) (Suc i) (Some c) cs))"

definition finditer :: "bool \<Rightarrow> regex \<Rightarrow> string \<Rightarrow> (nat \<times> nat) list" where
  "finditer ic r s = scan ic r 0 0 None s"

definition re_search :: "bool \<Rightarrow> regex \<Rightarrow> string \<Rightarrow> bool" where
  "re_search ic r s = (finditer ic r s \<noteq> [])"

text \<open>\<open>re.findall\<close> for a pattern without capturing groups: the matched texts.\<close>

definition re_findall :: "bool \<Rightarrow> regex \<Rightarrow> string \<Rightarrow> string list" where
  "re_findall ic r s = map (\<lambda>(a, b). slice s a b) (finditer ic r s)"

fun gaps :: "string \<Rightarrow> nat \<Rightarrow> (nat \<times> nat) list \<Rightarrow> string list" where
  "gaps s off [] = [drop off s]"
| "gaps s off ((a, b) # sp) = slice s off a # gaps s b sp"

text \<open>\<open>re.split\<close> for a pattern without capturing groups: the texts between the matches.\<close>

definition re_split :: "regex \<Rightarrow> string \<Rightarrow> string list" where
  "re_split r s = gaps s 0 (finditer False r s)"

fun sub_spans :: "(string \<Rightarrow> string) \<Rightarrow> string \<Rightarrow> nat \<Rightarrow> (nat \<times> nat) list \<Rightarrow> string" where
  "sub_spans f s off [] = drop off s"
| "sub_spans f s off ((a, b) # sp) = slice s off a @ f (slice s a b) @ sub_spans f s b sp"

text \<open>\<open>re.sub\<close>, the replacement given as a function of the matched text.\<close>

definition re_sub :: "regex \<Rightarrow> (string \<Rightarrow> string) \<Rightarrow> string \<Rightarrow> string" where
  "re_sub r f s = sub_spans f s 0 (finditer False r s)"

section \<open>Configuration (\<open>config.py\<close>)\<close>

definition section_pattern :: "string \<Rightarrow> regex list" where
  "section_pattern n =
     [Seq [Cls (OneOf ''Ss''), Lit ''ection'', Rep Space 0 None, Lit n],
      Seq [Cls (OneOf ''Ss''), Lit ''ec.'', Rep Space 0 None, Lit n]]"

definition RTI_SECTIONS :: "(string \<times> regex) list" where
  "RTI_SECTIONS =
     [(''section_8'', Alt (section_pattern ''8'' @ [Lit ''exemption'', Lit ''exempt''])),
      (''section_9'', Alt (section_pattern ''9'' @ [Lit ''reject'', Lit ''rejection''])),
      (''section_11'', Alt (section_pattern ''11'' @
          [Seq [Lit ''third'', Rep Space 0 None, Lit ''party'']])),
      (''section_19'', Alt (section_pattern ''19'' @ [Lit ''appeal''])),
      (''section_7'', Alt (section_pattern ''7'' @
          [Seq [Lit ''time'', Rep Space 0 None, Lit ''limit''],
           Seq [Lit ''30'', Rep Space 0 None, Lit ''days'']]))]"

definition DENIAL_KEYWORDS :: "string list" where
  "DENIAL_KEYWORDS =
     [''cannot be provided'', ''denied'', ''rejected'', ''exempt'', ''exemption'',
      ''not available'', ''refused'', ''decline'', ''not possible'', ''section 8'',
      ''confidential'', ''classified'', ''sensitive'', ''national security'']"

definition INFORMATIVE_KEYWORDS :: "string list" where
  "INFORMATIVE_KEYWORDS =
     [''information is'', ''details are'', ''as per records'', ''enclosed'',
      ''attached'', ''provided herewith'', ''following information'', ''data shows'']"

definition PROCEDURAL_KEYWORDS :: "string list" where
  "PROCEDURAL_KEYWORDS =
     [''transferred to'', ''forwarded to'', ''fee required'', ''please deposit'',
      ''time extension'', ''additional time'', ''competent authority'', ''CPIO'']"

definition EVASIVE_KEYWORDS :: "string list" where
  "EVASIVE_KEYWORDS =
     [''no such information'', ''not maintained'', ''not available'',
      ''beyond scope'', ''voluminous'', ''vague'', ''clarify'', ''resubmit'']"

section \<open>RTI-aware semantic processing (\<open>modules/rti_semantic.py\<close>)\<close>

datatype SentenceCategory = INFORMATIVE | DENIAL | PROCEDURAL | EVASIVE | NEUTRAL

record ClassifiedSentence =
  "text" :: string
  category :: SentenceCategory
  confidence :: rat
  section_references :: "string list"
  keywords_found :: "string list"

text \<open>
  The document-level \<open>section_references\<close> is a dictionary from section name to excerpts;
  it is kept as an association list in insertion order, with each key at most once.
\<close>

record StructuredRTIResponse =
  original_text :: string
  informative_sentences :: "ClassifiedSentence list"
  denial_sentences :: "ClassifiedSentence list"
  procedural_sentences :: "ClassifiedSentence list"
  evasive_sentences :: "ClassifiedSentence list"
  neutral_sentences :: "ClassifiedSentence list"
  section_references :: "(string \<times> string list) list"

record Stats =
  total_sentences :: nat
  informative_count :: nat
  denial_count :: nat
  procedural_count :: nat
  evasive_count :: nat
  neutral_count :: nat
  informative_ratio :: rat
  denial_ratio :: rat

text \<open>
  In \<open>get_stats\<close> each quotient is evaluated only under \<open>total > 0\<close>, and is \<open>0\<close>
  otherwise.
\<close>

definition get_stats :: "StructuredRTIResponse \<Rightarrow> Stats" where
  "get_stats self =
     (let total = length (informative_sentences self) + length (denial_sentences self)
                + length (procedural_sentences self) + length (evasive_sentences self)
                + length (neutral_sentences self)
      in \<lparr>total_sentences = total,
          informative_count = length (informative_sentences self),
          denial_count = length (denial_sentences self),
          procedural_count = length (procedural_sentences self),
          evasive_count = length (evasive_sentences self),
          neutral_count = length (neutral_sentences self),
          informative_ratio =
            (if total > 0 then of_nat (length (informative_sentences self)) / of_nat total
             else 0),
          denial_ratio =
            (if total > 0 then of_nat (length (denial_sentences self)) / of_nat total
             else 0)\<rparr>)"

text \<open>
  \<open>detect_rti_sections\<close>: for each section whose pattern occurs, the excerpts (the match
  with up to 50 characters on either side, stripped); a section without a match has no key.
\<close>

definition section_excerpts :: "regex \<Rightarrow> string \<Rightarrow> string list" where
  "section_excerpts pattern txt =
     map (\<lambda>(a, b). strip (slice txt (a - 50) (min (length txt) (b + 50))))
       (finditer True pattern txt)"

definition detect_rti_sections_in ::
  "(string \<times> regex) list \<Rightarrow> string \<Rightarrow> (string \<times> string list) list" where
  "detect_rti_sections_in sections txt =
     concat (map (\<lambda>(section_name, pattern).
        (let excerpts = section_excerpts pattern txt
         in if excerpts \<noteq> [] then [(section_name, excerpts)] else [])) sections)"

definition detect_rti_sections :: "string \<Rightarrow> (string \<times> string list) list" where
  "detect_rti_sections txt = detect_rti_sections_in RTI_SECTIONS txt"

text \<open>
  \<open>keyword_score\<close>: the quotient is Python's true division, which raises on a zero
  divisor; the source evaluates it only when \<open>keywords\<close> is non-empty.
\<close>

definition keyword_score :: "string \<Rightarrow> string list \<Rightarrow> py_error + (rat \<times> string list)" where
  "keyword_score txt keywords =
     (let text_lower = lower txt;
          found_keywords = filter (\<lambda>keyword. contains text_lower (lower keyword)) keywords
      in if keywords \<noteq> []
         then (case py_truediv (length found_keywords) (length keywords) of
                 Inl e \<Rightarrow> Inl e
               | Inr score \<Rightarrow> Inr (score, found_keywords))
         else Inr (0, found_keywords))"

text \<open>
  The loop over \<open>scores.items()\<close>: a category replaces the best one only with a strictly
  greater score, starting from \<open>(NEUTRAL, 0.0, [])\<close>.
\<close>

definition find_best ::
  "(SentenceCategory \<times> rat \<times> string list) list \<Rightarrow> SentenceCategory \<times> rat \<times> string list" where
  "find_best scores =
     fold (\<lambda>(category, score, keywords) (best_category, best_score, best_keywords).
             if score > best_score then (category, score, keywords)
             else (best_category, best_score, best_keywords))
       scores (NEUTRAL, 0, [])"

text \<open>
  \<open>adjusted_scores\<close> is the \<open>scores\<close> table of \<open>classify_sentence\<close>, in its insertion
  order, built from the four keyword scores of the stripped sentence and the two bonuses;
  \<open>classify_scored\<close> is the rest of the function, from the search for the best category
  on. Both read the section references of the same sentence.
\<close>

definition transfer_forward :: regex where
  "transfer_forward = Alt [Lit ''transfer'', Lit ''forward'']"

definition adjusted_scores ::
  "string \<Rightarrow> rat \<times> string list \<Rightarrow> rat \<times> string list \<Rightarrow> rat \<times> string list
     \<Rightarrow> rat \<times> string list \<Rightarrow> (SentenceCategory \<times> rat \<times> string list) list" where
  "adjusted_scores sentence d i p e =
     (let section_refs = detect_rti_sections sentence;
          denial_score =
            (if ''section_8'' \<in> set (map fst section_refs) then fst d + 3 / 10 else fst d);
          procedural_score =
            (if ''section_7'' \<in> set (map fst section_refs)
                \<or> re_search True transfer_forward sentence
             then fst p + 2 / 10 else fst p)
      in [(DENIAL, denial_score, snd d),
          (INFORMATIVE, fst i, snd i),
          (PROCEDURAL, procedural_score, snd p),
          (EVASIVE, fst e, snd e)])"

definition classify_scored ::
  "string \<Rightarrow> (SentenceCategory \<times> rat \<times> string list) list \<Rightarrow> ClassifiedSentence" where
  "classify_scored sentence scores =
     (let section_list = map fst (detect_rti_sections sentence);
          (best_category, best_score, best_keywords) = find_best scores;
          (best_category, best_score) =
            (if best_score < 1 / 10 then (NEUTRAL, 5 / 10) else (best_category, best_score))
      in \<lparr>text = sentence,
          category = best_category,
          confidence = min best_score 1,
          section_references = section_list,
          keywords_found = best_keywords\<rparr>)"

text \<open>
  \<open>classify_sentence_with\<close> is \<open>classify_sentence\<close> with the four keyword lists of the
  configuration as arguments.
\<close>

definition classify_sentence_with ::
  "string list \<Rightarrow> string list \<Rightarrow> string list \<Rightarrow> string list \<Rightarrow> string
     \<Rightarrow> py_error + ClassifiedSentence" where
  "classify_sentence_with denial informative procedural evasive sentence0 =
     (let sentence = strip sentence0
      in if sentence = []
         then Inr \<lparr>text = sentence, category = NEUTRAL, confidence = 0,
                   section_references = [], keywords_found = []\<rparr>
         else
           (case keyword_score sentence denial of Inl err \<Rightarrow> Inl err | Inr d \<Rightarrow>
            case keyword_score sentence informative of Inl err \<Rightarrow> Inl err | Inr i \<Rightarrow>
            case keyword_score sentence procedural of Inl err \<Rightarrow> Inl err | Inr p \<Rightarrow>
            case keyword_score sentence evasive of Inl err \<Rightarrow> Inl err | Inr e \<Rightarrow>
              Inr (classify_scored sentence (adjusted_scores sentence d i p e))))"

definition classify_sentence :: "string \<Rightarrow> py_error + ClassifiedSentence" where
  "classify_sentence sentence =
     classify_sentence_with DENIAL_KEYWORDS INFORMATIVE_KEYWORDS PROCEDURAL_KEYWORDS
       EVASIVE_KEYWORDS sentence"

text \<open>
  The classification segmenter. In both substitutions group 1 is the matched text without
  its last two characters (the period and the whitespace character), so \<open>\1<DOT> \<close>
  replaces exactly those two.
\<close>

definition title_abbreviations :: regex where
  "title_abbreviations =
     Alt [Lit ''Mr'', Lit ''Mrs'', Lit ''Dr'', Lit ''Prof'', Lit ''Sr'', Lit ''Jr'',
          Lit ''vs'', Lit ''etc'', Lit ''i.e'', Lit ''e.g'']"

definition sec_no_abbreviations :: regex where
  "sec_no_abbreviations =
     Alt [Seq [Cls (OneOf ''Ss''), Lit ''ec''], Seq [Cls (OneOf ''Nn''), Lit ''o'']]"

definition sentence_end :: regex where
  "sentence_end = Seq [Lookbehind (OneOf ''.!?''), Rep Space 1 None]"

definition rti_semantic_split_into_sentences :: "string \<Rightarrow> string list" where
  "rti_semantic_split_into_sentences text0 =
     (let text1 = re_sub (Seq [title_abbreviations, Lit ''.'', Cls Space])
                    (\<lambda>m. take (length m - 2) m @ ''<DOT> '') text0;
          text2 = re_sub (Seq [sec_no_abbreviations, Lit ''.'', Cls Space])
                    (\<lambda>m. take (length m - 2) m @ ''<DOT> '') text1;
          sentences = re_split sentence_end text2;
          sentences = map (\<lambda>s. replace s ''<DOT>'' ''.'') sentences
      in map strip (filter (\<lambda>s. length (strip s) > 10) sentences))"

text \<open>
  \<open>extract_structured_response\<close>: every classified sentence is appended to the bucket of
  its category, in document order.
\<close>

definition add_classified :: "ClassifiedSentence \<Rightarrow> StructuredRTIResponse \<Rightarrow> StructuredRTIResponse" where
  "add_classified classified result =
     (if category classified = INFORMATIVE
      then result\<lparr>informative_sentences := informative_sentences result @ [classified]\<rparr>
      else if category classified = DENIAL
      then result\<lparr>denial_sentences := denial_sentences result @ [classified]\<rparr>
      else if category classified = PROCEDURAL
      then result\<lparr>procedural_sentences := procedural_sentences result @ [classified]\<rparr>
      else if category classified = EVASIVE
      then result\<lparr>evasive_sentences := evasive_sentences result @ [classified]\<rparr>
      else result\<lparr>neutral_sentences := neutral_sentences result @ [classified]\<rparr>)"

fun classify_all :: "string list \<Rightarrow> StructuredRTIResponse \<Rightarrow> py_error + StructuredRTIResponse" where
  "classify_all [] result = Inr result"
| "classify_all (sentence # sentences) result =
     (case classify_sentence sentence of
        Inl err \<Rightarrow> Inl err
      | Inr classified \<Rightarrow> classify_all sentences (add_classified classified result))"

definition extract_structured_response :: "string \<Rightarrow> py_error + StructuredRTIResponse" where
  "extract_structured_response txt =
     (let all_section_refs = detect_rti_sections txt;
          sentences = rti_semantic_split_into_sentences txt
      in classify_all sentences
           \<lparr>original_text = txt, informative_sentences = [], denial_sentences = [],
            procedural_sentences = [], evasive_sentences = [], neutral_sentences = [],
            section_references = all_section_refs\<rparr>)"

section \<open>Fact anchor extraction (\<open>modules/fact_extractor.py\<close>)\<close>

definition FACT_ACTIONS :: "string list" where
  "FACT_ACTIONS =
     [''provided'', ''processed'', ''credited'', ''transferred'', ''completed'',
      ''approved'', ''sanctioned'', ''issued'', ''granted'', ''received'',
      ''dispatched'', ''forwarded'', ''deposited'', ''verified'', ''confirmed'']"

definition FACT_DENIALS :: "string list" where
  "FACT_DENIALS =
     [''denied'', ''rejected'', ''cannot be provided'', ''not available'',
      ''exemption'', ''section 8'', ''confidential'', ''not maintained'']"

definition digits_commas :: regex where
  "digits_commas = Rep (Union Digit (OneOf '','')) 1 None"

text \<open>
  The second amount pattern is written in the source with three non-ASCII characters; they
  are given here by the bytes of their UTF-8 encoding, so the pattern matches no ASCII text.
\<close>

definition FACT_AMOUNTS :: "regex list" where
  "FACT_AMOUNTS =
     [Seq [Lit ''Rs'', Opt (Lit ''.''), Rep Space 0 None, digits_commas],
      Seq [Lit [CHR 0xC3, CHR 0xA2, CHR 0xE2, CHR 0x80, CHR 0x9A, CHR 0xC2, CHR 0xB9],
           Rep Space 0 None, digits_commas],
      Seq [Lit ''INR'', Rep Space 0 None, digits_commas],
      Seq [Rep Digit 1 None, Rep Space 0 None,
           Alt [Lit ''lakh'', Lit ''crore'', Lit ''thousand'']],
      Seq [Lit ''amount'', Opt (Lit ''ing''), Rep Space 1 None, Alt [Lit ''of'', Lit ''to'']]]"

definition numeric_date :: "regex list" where
  "numeric_date =
     [Rep Digit 1 (Some 2), Cls (OneOf ''-/''), Rep Digit 1 (Some 2), Cls (OneOf ''-/''),
      Rep Digit 2 (Some 4)]"

definition FACT_DATES :: "regex list" where
  "FACT_DATES =
     [Seq [Rep Digit 1 (Some 2), Opt (Alt [Lit ''st'', Lit ''nd'', Lit ''rd'', Lit ''th'']),
           Rep Space 1 None,
           Alt [Lit ''January'', Lit ''February'', Lit ''March'', Lit ''April'', Lit ''May'',
                Lit ''June'', Lit ''July'', Lit ''August'', Lit ''September'', Lit ''October'',
                Lit ''November'', Lit ''December''],
           Opt (Lit '',''), Rep Space 1 None, Rep Digit 4 (Some 4)],
      Seq numeric_date,
      Seq ([Alt [Seq [Lit ''date'', Opt (Lit ''d'')], Lit ''on''], Rep Space 1 None]
           @ numeric_date)]"

definition FACT_AUTHORITIES :: "string list" where
  "FACT_AUTHORITIES =
     [''ministry'', ''department'', ''office'', ''cpio'', ''pio'',
      ''authority'', ''commissioner'', ''secretary'', ''officer'']"

record details =
  actions :: "string list"
  denials :: "string list"
  amounts :: "string list"
  dates :: "string list"
  authorities :: "string list"

text \<open>
  \<open>calculate_sentence_score\<close>: each keyword loop adds its weight once per keyword found in
  the lower-cased sentence, each pattern loop adds its weight once per match.
\<close>

definition calculate_sentence_score :: "string \<Rightarrow> rat \<times> details" where
  "calculate_sentence_score sentence =
     (let sentence_lower = lower sentence;
          d = \<lparr>actions = filter (contains sentence_lower) FACT_ACTIONS,
               denials = filter (contains sentence_lower) FACT_DENIALS,
               amounts = concat (map (\<lambda>pattern. re_findall True pattern sentence) FACT_AMOUNTS),
               dates = concat (map (\<lambda>pattern. re_findall True pattern sentence) FACT_DATES),
               authorities = filter (contains sentence_lower) FACT_AUTHORITIES\<rparr>;
          score = 2 * of_nat (length (actions d)) + 5 / 2 * of_nat (length (denials d))
                + 3 * of_nat (length (amounts d)) + 5 / 2 * of_nat (length (dates d))
                + 1 * of_nat (length (authorities d));
          word_count = length (split_words [] sentence);
          score = (if 15 \<le> word_count \<and> word_count \<le> 50 then score + 1
                   else if word_count > 50 then score + 5 / 10 else score);
          score = (if word_count < 5 then score * (5 / 10) else score)
      in (score, d))"

text \<open>
  The fact-anchor segmenter. Group 1 of the first two substitutions is the matched text
  without its final period.
\<close>

definition fact_extractor_split_into_sentences :: "string \<Rightarrow> string list" where
  "fact_extractor_split_into_sentences text0 =
     (let text1 = re_sub (Seq [title_abbreviations, Lit ''.''])
                    (\<lambda>m. take (length m - 1) m @ ''<DOT>'') text0;
          text2 = re_sub (Seq [sec_no_abbreviations, Lit ''.''])
                    (\<lambda>m. take (length m - 1) m @ ''<DOT>'') text1;
          text3 = re_sub (Lit ''Rs.'') (\<lambda>m. ''Rs<DOT>'') text2;
          sentences = re_split sentence_end text3;
          sentences = map (\<lambda>s. replace s ''<DOT>'' ''.'') sentences
      in map strip (filter (\<lambda>s. length (strip s) > 15) sentences))"

record scored_sentence =
  sentence :: string
  score :: rat
  sentence_details :: details

text \<open>
  \<open>xs[:n]\<close>: a negative \<open>n\<close> counts from the end. \<open>list.sort(key, reverse=True)\<close> is
  stable; it is the stable ascending sort on the negated key.
\<close>

definition slice_to :: "'a list \<Rightarrow> int \<Rightarrow> 'a list" where
  "slice_to xs n = (if n < 0 then take (length xs - nat (- n)) xs else take (nat n) xs)"

definition score_sentences :: "string list \<Rightarrow> scored_sentence list" where
  "score_sentences sentences =
     map (\<lambda>s. \<lparr>sentence = s, score = fst (calculate_sentence_score s),
                sentence_details = snd (calculate_sentence_score s)\<rparr>) sentences"

definition select_anchors :: "scored_sentence list \<Rightarrow> int \<Rightarrow> string list" where
  "select_anchors scored_sentences top_n =
     (let min_score = 1;
          fact_anchors =
            map sentence (filter (\<lambda>item. score item \<ge> min_score) (slice_to scored_sentences top_n))
      in if fact_anchors = [] \<and> scored_sentences \<noteq> []
         then map sentence (take 2 scored_sentences)
         else fact_anchors)"

definition extract_fact_anchors :: "string \<Rightarrow> int \<Rightarrow> string list" where
  "extract_fact_anchors txt top_n =
     (let sentences = fact_extractor_split_into_sentences txt
      in if sentences = [] then []
         else select_anchors (sort_key (\<lambda>x. - score x) (score_sentences sentences)) top_n)"

section \<open>Actionability layer (\<open>modules/actionability.py\<close>)\<close>

datatype ActionType =
  FIRST_APPEAL | SECOND_APPEAL | CLARIFICATION | COMPLAINT | NO_ACTION | WAIT | PAY_FEE

definition action_value :: "ActionType \<Rightarrow> string" where
  "action_value a =
     (case a of
        FIRST_APPEAL \<Rightarrow> ''first_appeal''
      | SECOND_APPEAL \<Rightarrow> ''second_appeal''
      | CLARIFICATION \<Rightarrow> ''clarification''
      | COMPLAINT \<Rightarrow> ''complaint''
      | NO_ACTION \<Rightarrow> ''no_action''
      | WAIT \<Rightarrow> ''wait''
      | PAY_FEE \<Rightarrow> ''pay_fee'')"

record ActionSuggestion =
  action_type :: ActionType
  priority :: string
  title :: string
  description :: string
  deadline :: "string option"
  reference :: "string option"

definition file_first_appeal :: ActionSuggestion where
  "file_first_appeal =
     \<lparr>action_type = FIRST_APPEAL, priority = ''high'', title = ''File First Appeal'',
      description =
        ''Significant information has been denied. You can file a First Appeal ''
        @ ''with the First Appellate Authority within 30 days of receiving this response. ''
        @ ''Under Section 19(1) of RTI Act, you have the right to appeal against denial.'',
      deadline = Some ''30 days from receipt of response'',
      reference = Some ''Section 19(1) of RTI Act, 2005''\<rparr>"

definition request_clarification :: ActionSuggestion where
  "request_clarification =
     \<lparr>action_type = CLARIFICATION, priority = ''high'', title = ''Request Clarification'',
      description =
        ''The response contains vague or evasive statements that don't adequately ''
        @ ''answer your query. You can write to the PIO requesting specific clarification ''
        @ ''or file an appeal citing inadequate response.'',
      deadline = None,
      reference = Some ''Section 7(8) of RTI Act, 2005''\<rparr>"

definition challenge_exemption_claim :: ActionSuggestion where
  "challenge_exemption_claim =
     \<lparr>action_type = FIRST_APPEAL, priority = ''high'', title = ''Challenge Exemption Claim'',
      description =
        ''The PIO has cited Section 8 exemptions to deny information. You can file an appeal ''
        @ ''challenging whether the exemption genuinely applies. The burden is on the PIO to ''
        @ ''prove that the exemption is justified.'',
      deadline = Some ''30 days from receipt'',
      reference = Some ''Section 8, Section 19 of RTI Act, 2005''\<rparr>"

definition pay_additional_fee :: ActionSuggestion where
  "pay_additional_fee =
     \<lparr>action_type = PAY_FEE, priority = ''medium'', title = ''Pay Additional Fee'',
      description =
        ''The PIO has requested additional fees. Pay the fee within the specified ''
        @ ''timeline to receive the information. Keep the receipt as proof.'',
      deadline = None,
      reference = Some ''Section 7 of RTI Act, 2005''\<rparr>"

definition application_transferred :: ActionSuggestion where
  "application_transferred =
     \<lparr>action_type = WAIT, priority = ''low'', title = ''Application Transferred'',
      description =
        ''Your application has been transferred to another department. ''
        @ ''Wait for a response from the concerned PIO. The transfer should not ''
        @ ''reset your timeline.'',
      deadline = None,
      reference = Some ''Section 6(3) of RTI Act, 2005''\<rparr>"

definition response_complete :: ActionSuggestion where
  "response_complete =
     \<lparr>action_type = NO_ACTION, priority = ''low'', title = ''Response Complete'',
      description =
        ''The RTI response appears to adequately address your query. ''
        @ ''No further action is required unless you find the information incomplete.'',
      deadline = None,
      reference = None\<rparr>"

definition review_response_carefully :: ActionSuggestion where
  "review_response_carefully =
     \<lparr>action_type = NO_ACTION, priority = ''low'', title = ''Review Response Carefully'',
      description =
        ''Review the response to determine if all your queries have been addressed. ''
        @ ''If unsatisfied, you may file a First Appeal within 30 days.'',
      deadline = Some ''30 days if appeal needed'',
      reference = Some ''Section 19 of RTI Act, 2005''\<rparr>"

text \<open>\<open>join sep xs\<close> is \<open>sep.join(xs)\<close>.\<close>

fun join :: "string \<Rightarrow> string list \<Rightarrow> string" where
  "join sep [] = []"
| "join sep [x] = x"
| "join sep (x # y # ys) = x @ sep @ join sep (y # ys)"

text \<open>
  Rules 1 to 5 of \<open>suggest_next_steps\<close>, each appending to the list when its condition
  holds; \<open>rule4\<close> is the body of the procedural rule.
\<close>

definition rule4 :: "StructuredRTIResponse \<Rightarrow> ActionSuggestion list \<Rightarrow> ActionSuggestion list" where
  "rule4 structured suggestions =
     (let procedural_texts =
            join '' '' (map (\<lambda>s. lower (text s)) (procedural_sentences structured));
          suggestions =
            (if contains procedural_texts ''fee'' \<or> contains procedural_texts ''deposit''
                \<or> contains procedural_texts ''payment''
             then suggestions @ [pay_additional_fee] else suggestions)
      in if contains procedural_texts ''transfer'' \<or> contains procedural_texts ''forward''
         then suggestions @ [application_transferred] else suggestions)"

definition fired_suggestions :: "StructuredRTIResponse \<Rightarrow> ActionSuggestion list" where
  "fired_suggestions structured =
     (let stats = get_stats structured;
          suggestions = [];
          suggestions =
            (if denial_ratio stats > 3 / 10 \<or> denial_count stats \<ge> 2
             then suggestions @ [file_first_appeal] else suggestions);
          suggestions =
            (if evasive_count stats \<ge> 2
                \<or> (evasive_count stats > 0 \<and> informative_count stats = 0)
             then suggestions @ [request_clarification] else suggestions);
          suggestions =
            (if ''section_8'' \<in> set (map fst (StructuredRTIResponse.section_references structured))
             then suggestions @ [challenge_exemption_claim] else suggestions);
          suggestions =
            (if procedural_count stats > 0 then rule4 structured suggestions else suggestions)
      in if informative_ratio stats > 6 / 10 \<and> denial_count stats = 0
         then suggestions @ [response_complete] else suggestions)"

definition priority_order :: "ActionSuggestion \<Rightarrow> nat" where
  "priority_order x =
     (case map_of [(''high'', 0), (''medium'', 1), (''low'', 2)] (priority x) of
        Some n \<Rightarrow> n
      | None \<Rightarrow> 3)"

text \<open>
  \<open>suggest_next_steps\<close>: rule 6 adds the review suggestion to an empty list, then the list
  is sorted by priority (\<open>list.sort\<close> is stable).
\<close>

definition suggest_next_steps :: "StructuredRTIResponse \<Rightarrow> ActionSuggestion list" where
  "suggest_next_steps structured =
     (let suggestions = fired_suggestions structured;
          suggestions =
            (if suggestions = [] then suggestions @ [review_response_carefully]
             else suggestions)
      in sort_key priority_order suggestions)"

record AppealEligibility =
  eligible :: bool
  reasons :: "string list"
  appeal_type :: string
  appeal_deadline :: string
  authority :: string

definition check_appeal_eligibility :: "StructuredRTIResponse \<Rightarrow> AppealEligibility" where
  "check_appeal_eligibility structured =
     (let stats = get_stats structured;
          reasons = [];
          reasons =
            (if denial_count stats > 0 then reasons @ [''Information was denied'']
             else reasons);
          reasons =
            (if ''section_8'' \<in> set (map fst (StructuredRTIResponse.section_references structured))
             then reasons @ [''Section 8 exemptions were cited''] else reasons);
          reasons =
            (if evasive_count stats > 0
             then reasons @ [''Response contains evasive/unclear statements''] else reasons);
          reasons =
            (if informative_count stats = 0 \<and> neutral_count stats > 3
             then reasons @ [''Response does not adequately address the query'']
             else reasons)
      in \<lparr>eligible = length reasons > 0,
          reasons = reasons,
          appeal_type = ''First Appeal under Section 19(1)'',
          appeal_deadline = ''30 days from receipt of response'',
          authority = ''First Appellate Authority (FAA)''\<rparr>)"

record Flag =
  flag_type :: string
  severity :: string
  flag_text :: string
  reason :: string

definition flag_evasive_responses :: "StructuredRTIResponse \<Rightarrow> Flag list" where
  "flag_evasive_responses structured =
     map (\<lambda>s. \<lparr>flag_type = ''evasive'', severity = ''medium'', flag_text = text s,
                reason = ''Response is vague or non-committal''\<rparr>)
       (evasive_sentences structured)
     @ map (\<lambda>s. \<lparr>flag_type = ''denial_without_reason'', severity = ''high'',
                  flag_text = text s,
                  reason = ''Denial without citing specific exemption clause''\<rparr>)
         (filter (\<lambda>s. \<not> contains (lower (text s)) ''section'') (denial_sentences structured))"

definition get_overall_assessment :: "StructuredRTIResponse \<Rightarrow> string" where
  "get_overall_assessment structured =
     (let stats = get_stats structured
      in if informative_ratio stats > 6 / 10
         then ''SATISFACTORY - Response adequately addresses most queries''
         else if denial_ratio stats > 4 / 10
         then ''UNSATISFACTORY - Significant information denied, consider appeal''
         else if evasive_count stats > informative_count stats
         then ''INADEQUATE - Response is vague and non-committal''
         else ''PARTIAL - Some information provided, review for completeness'')"

text \<open>
  The report's \<open>suggestions\<close> are the suggestions with the action type replaced by its
  string value; the entries of the dictionaries \<open>deadline\<close> of the eligibility verdict and
  \<open>type\<close> and \<open>text\<close> of a flag are the fields \<open>appeal_deadline\<close>, \<open>flag_type\<close> and
  \<open>flag_text\<close>.
\<close>

record SuggestionEntry =
  action :: string
  entry_priority :: string
  entry_title :: string
  entry_description :: string
  entry_deadline :: "string option"
  entry_reference :: "string option"

record ActionReport =
  suggestions :: "SuggestionEntry list"
  appeal_eligibility :: AppealEligibility
  flags :: "Flag list"
  overall_assessment :: string

definition generate_action_report :: "StructuredRTIResponse \<Rightarrow> ActionReport" where
  "generate_action_report structured =
     (let suggestions = suggest_next_steps structured;
          appeal_check = check_appeal_eligibility structured;
          flags = flag_evasive_responses structured
      in \<lparr>suggestions =
            map (\<lambda>s. \<lparr>action = action_value (action_type s), entry_priority = priority s,
                       entry_title = title s, entry_description = description s,
                       entry_deadline = deadline s, entry_reference = reference s\<rparr>)
              suggestions,
          appeal_eligibility = appeal_check,
          flags = flags,
          overall_assessment = get_overall_assessment structured\<rparr>)"

section \<open>Example inputs\<close>

text \<open>
  A document of ten sentences, four of them denials and none informative, and its
  structured response.
\<close>

definition denial_example :: ClassifiedSentence where
  "denial_example =
     \<lparr>text = ''It is denied and refused.'', category = DENIAL, confidence = 2 / 14,
      section_references = [], keywords_found = [''denied'', ''refused'']\<rparr>"

definition neutral_example :: ClassifiedSentence where
  "neutral_example =
     \<lparr>text = ''Thank you so much.'', category = NEUTRAL, confidence = 5 / 10,
      section_references = [], keywords_found = []\<rparr>"

definition scenario3_text :: string where
  "scenario3_text =
     concat (replicate 4 ''It is denied and refused. '')
     @ concat (replicate 6 ''Thank you so much. '')"

definition scenario3_response :: StructuredRTIResponse where
  "scenario3_response =
     \<lparr>original_text = scenario3_text,
      informative_sentences = [],
      denial_sentences = replicate 4 denial_example,
      procedural_sentences = [],
      evasive_sentences = [],
      neutral_sentences = replicate 6 neutral_example,
      section_references = []\<rparr>"

text \<open>
  A response with two denials, one procedural sentence asking for a fee and announcing a
  transfer, and one informative sentence.
\<close>

definition mixed_response :: StructuredRTIResponse where
  "mixed_response =
     \<lparr>original_text = [],
      informative_sentences =
        [\<lparr>text = ''The details are enclosed.'', category = INFORMATIVE, confidence = 2 / 8,
          section_references = [], keywords_found = [''details are'', ''enclosed'']\<rparr>],
      denial_sentences = replicate 2 denial_example,
      procedural_sentences =
        [\<lparr>text = ''Please deposit the fee; the rest is transferred to the CPIO.'',
          category = PROCEDURAL, confidence = 3 / 8 + 2 / 10,
          section_references = [],
          keywords_found = [''transferred to'', ''please deposit'', ''CPIO'']\<rparr>],
      evasive_sentences = [],
      neutral_sentences = [],
      section_references = []\<rparr>"

text \<open>
  Sentences for the classifier: scenario 1 of the specification; a sentence with one
  informative and one evasive keyword; two sentences with a single denial keyword, the
  second of which also mentions a section.
\<close>

definition scenario1_sentence :: string where
  "scenario1_sentence =
     ''Information cannot be provided as it is exempt under Section 8 of the Act.''"

definition tie_sentence :: string where
  "tie_sentence = ''The information is not maintained here.''"

definition denied_sentence :: string where
  "denied_sentence = ''Your request was denied.''"

definition rejected_sentence :: string where
  "rejected_sentence = ''Your plea was rejected.''"

text \<open>The suggestions the rule engine can emit.\<close>

definition all_suggestions :: "ActionSuggestion set" where
  "all_suggestions =
     {file_first_appeal, request_clarification, challenge_exemption_claim,
      pay_additional_fee, application_transferred, response_complete,
      review_response_carefully}"

section \<open>Kernel evaluation of \<open>lower_char\<close>\<close>

text \<open>
  The table of \<open>lower_char\<close> on all 256 characters, as code equations, so that closed
  terms are evaluated by rewriting without searching the alphabet.
\<close>

lemma lower_char_table [code]:
  "lower_char (CHR 0x00) = CHR 0x00" "lower_char (CHR 0x01) = CHR 0x01" "lower_char (CHR 0x02) = CHR 0x02"
  "lower_char (CHR 0x03) = CHR 0x03" "lower_char (CHR 0x04) = CHR 0x04" "lower_char (CHR 0x05) = CHR 0x05"
  "lower_char (CHR 0x06) = CHR 0x06" "lower_char (CHR 0x07) = CHR 0x07" "lower_char (CHR 0x08) = CHR 0x08"
  "lower_char (CHR 0x09) = CHR 0x09" "lower_char (CHR 0x0A) = CHR 0x0A" "lower_char (CHR 0x0B) = CHR 0x0B"
  "lower_char (CHR 0x0C) = CHR 0x0C" "lower_char (CHR 0x0D) = CHR 0x0D" "lower_char (CHR 0x0E) = CHR 0x0E"
  "lower_char (CHR 0x0F) = CHR 0x0F" "lower_char (CHR 0x10) = CHR 0x10" "lower_char (CHR 0x11) = CHR 0x11"
  "lower_char (CHR 0x12) = CHR 0x12" "lower_char (CHR 0x13) = CHR 0x13" "lower_char (CHR 0x14) = CHR 0x14"
  "lower_char (CHR 0x15) = CHR 0x15" "lower_char (CHR 0x16) = CHR 0x16" "lower_char (CHR 0x17) = CHR 0x17"
  "lower_char (CHR 0x18) = CHR 0x18" "lower_char (CHR 0x19) = CHR 0x19" "lower_char (CHR 0x1A) = CHR 0x1A"
  "lower_char (CHR 0x1B) = CHR 0x1B" "lower_char (CHR 0x1C) = CHR 0x1C" "lower_char (CHR 0x1D) = CHR 0x1D"
  "lower_char (CHR 0x1E) = CHR 0x1E" "lower_char (CHR 0x1F) = CHR 0x1F" "lower_char (CHR '' '') = CHR '' ''"
  "lower_char (CHR ''!'') = CHR ''!''" "lower_char (CHR 0x22) = CHR 0x22" "lower_char (CHR ''#'') = CHR ''#''"
  "lower_char (CHR ''$'') = CHR ''$''" "lower_char (CHR ''%'') = CHR ''%''" "lower_char (CHR ''&'') = CHR ''&''"
  "lower_char (CHR 0x27) = CHR 0x27" "lower_char (CHR ''('') = CHR ''(''" "lower_char (CHR '')'') = CHR '')''"
  "lower_char (CHR ''*'') = CHR ''*''" "lower_char (CHR ''+'') = CHR ''+''" "lower_char (CHR '','') = CHR '',''"
  "lower_char (CHR ''-'') = CHR ''-''" "lower_char (CHR ''.'') = CHR ''.''" "lower_char (CHR ''/'') = CHR ''/''"
  "lower_char (CHR ''0'') = CHR ''0''" "lower_char (CHR ''1'') = CHR ''1''" "lower_char (CHR ''2'') = CHR ''2''"
  "lower_char (CHR ''3'') = CHR ''3''" "lower_char (CHR ''4'') = CHR ''4''" "lower_char (CHR ''5'') = CHR ''5''"
  "lower_char (CHR ''6'') = CHR ''6''" "lower_char (CHR ''7'') = CHR ''7''" "lower_char (CHR ''8'') = CHR ''8''"
  "lower_char (CHR ''9'') = CHR ''9''" "lower_char (CHR '':'') = CHR '':''" "lower_char (CHR '';'') = CHR '';''"
  "lower_char (CHR ''<'') = CHR ''<''" "lower_char (CHR ''='') = CHR ''=''" "lower_char (CHR ''>'') = CHR ''>''"
  "lower_char (CHR ''?'') = CHR ''?''" "lower_char (CHR ''@'') = CHR ''@''" "lower_char (CHR ''A'') = CHR ''a''"
  "lower_char (CHR ''B'') = CHR ''b''" "lower_char (CHR ''C'') = CHR ''c''" "lower_char (CHR ''D'') = CHR ''d''"
  "lower_char (CHR ''E'') = CHR ''e''" "lower_char (CHR ''F'') = CHR ''f''" "lower_char (CHR ''G'') = CHR ''g''"
  "lower_char (CHR ''H'') = CHR ''h''" "lower_char (CHR ''I'') = CHR ''i''" "lower_char (CHR ''J'') = CHR ''j''"
  "lower_char (CHR ''K'') = CHR ''k''" "lower_char (CHR ''L'') = CHR ''l''" "lower_char (CHR ''M'') = CHR ''m''"
  "lower_char (CHR ''N'') = CHR ''n''" "lower_char (CHR ''O'') = CHR ''o''" "lower_char (CHR ''P'') = CHR ''p''"
  "lower_char (CHR ''Q'') = CHR ''q''" "lower_char (CHR ''R'') = CHR ''r''" "lower_char (CHR ''S'') = CHR ''s''"
  "lower_char (CHR ''T'') = CHR ''t''" "lower_char (CHR ''U'') = CHR ''u''" "lower_char (CHR ''V'') = CHR ''v''"
  "lower_char (CHR ''W'') = CHR ''w''" "lower_char (CHR ''X'') = CHR ''x''" "lower_char (CHR ''Y'') = CHR ''y''"
  "lower_char (CHR ''Z'') = CHR ''z''" "lower_char (CHR ''['') = CHR ''[''" "lower_char (CHR 0x5C) = CHR 0x5C"
  "lower_char (CHR '']'') = CHR '']''" "lower_char (CHR ''^'') = CHR ''^''" "lower_char (CHR ''_'') = CHR ''_''"
  "lower_char (CHR ''`'') = CHR ''`''" "lower_char (CHR ''a'') = CHR ''a''" "lower_char (CHR ''b'') = CHR ''b''"
  "lower_char (CHR ''c'') = CHR ''c''" "lower_char (CHR ''d'') = CHR ''d''" "lower_char (CHR ''e'') = CHR ''e''"
  "lower_char (CHR ''f'') = CHR ''f''" "lower_char (CHR ''g'') = CHR ''g''" "lower_char (CHR ''h'') = CHR ''h''"
  "lower_char (CHR ''i'') = CHR ''i''" "lower_char (CHR ''j'') = CHR ''j''" "lower_char (CHR ''k'') = CHR ''k''"
  "lower_char (CHR ''l'') = CHR ''l''" "lower_char (CHR ''m'') = CHR ''m''" "lower_char (CHR ''n'') = CHR ''n''"
  "lower_char (CHR ''o'') = CHR ''o''" "lower_char (CHR ''p'') = CHR ''p''" "lower_char (CHR ''q'') = CHR ''q''"
  "lower_char (CHR ''r'') = CHR ''r''" "lower_char (CHR ''s'') = CHR ''s''" "lower_char (CHR ''t'') = CHR ''t''"
  "lower_char (CHR ''u'') = CHR ''u''" "lower_char (CHR ''v'') = CHR ''v''" "lower_char (CHR ''w'') = CHR ''w''"
  "lower_char (CHR ''x'') = CHR ''x''" "lower_char (CHR ''y'') = CHR ''y''" "lower_char (CHR ''z'') = CHR ''z''"
  "lower_char (CHR ''{'') = CHR ''{''" "lower_char (CHR ''|'') = CHR ''|''" "lower_char (CHR ''}'') = CHR ''}''"
  "lower_char (CHR ''~'') = CHR ''~''" "lower_char (CHR 0x7F) = CHR 0x7F" "lower_char (CHR 0x80) = CHR 0x80"
  "lower_char (CHR 0x81) = CHR 0x81" "lower_char (CHR 0x82) = CHR 0x82" "lower_char (CHR 0x83) = CHR 0x83"
  "lower_char (CHR 0x84) = CHR 0x84" "lower_char (CHR 0x85) = CHR 0x85" "lower_char (CHR 0x86) = CHR 0x86"
  "lower_char (CHR 0x87) = CHR 0x87" "lower_char (CHR 0x88) = CHR 0x88" "lower_char (CHR 0x89) = CHR 0x89"
  "lower_char (CHR 0x8A) = CHR 0x8A" "lower_char (CHR 0x8B) = CHR 0x8B" "lower_char (CHR 0x8C) = CHR 0x8C"
  "lower_char (CHR 0x8D) = CHR 0x8D" "lower_char (CHR 0x8E) = CHR 0x8E" "lower_char (CHR 0x8F) = CHR 0x8F"
  "lower_char (CHR 0x90) = CHR 0x90" "lower_char (CHR 0x91) = CHR 0x91" "lower_char (CHR 0x92) = CHR 0x92"
  "lower_char (CHR 0x93) = CHR 0x93" "lower_char (CHR 0x94) = CHR 0x94" "lower_char (CHR 0x95) = CHR 0x95"
  "lower_char (CHR 0x96) = CHR 0x96" "lower_char (CHR 0x97) = CHR 0x97" "lower_char (CHR 0x98) = CHR 0x98"
  "lower_char (CHR 0x99) = CHR 0x99" "lower_char (CHR 0x9A) = CHR 0x9A" "lower_char (CHR 0x9B) = CHR 0x9B"
  "lower_char (CHR 0x9C) = CHR 0x9C" "lower_char (CHR 0x9D) = CHR 0x9D" "lower_char (CHR 0x9E) = CHR 0x9E"
  "lower_char (CHR 0x9F) = CHR 0x9F" "lower_char (CHR 0xA0) = CHR 0xA0" "lower_char (CHR 0xA1) = CHR 0xA1"
  "lower_char (CHR 0xA2) = CHR 0xA2" "lower_char (CHR 0xA3) = CHR 0xA3" "lower_char (CHR 0xA4) = CHR 0xA4"
  "lower_char (CHR 0xA5) = CHR 0xA5" "lower_char (CHR 0xA6) = CHR 0xA6" "lower_char (CHR 0xA7) = CHR 0xA7"
  "lower_char (CHR 0xA8) = CHR 0xA8" "lower_char (CHR 0xA9) = CHR 0xA9" "lower_char (CHR 0xAA) = CHR 0xAA"
  "lower_char (CHR 0xAB) = CHR 0xAB" "lower_char (CHR 0xAC) = CHR 0xAC" "lower_char (CHR 0xAD) = CHR 0xAD"
  "lower_char (CHR 0xAE) = CHR 0xAE" "lower_char (CHR 0xAF) = CHR 0xAF" "lower_char (CHR 0xB0) = CHR 0xB0"
  "lower_char (CHR 0xB1) = CHR 0xB1" "lower_char (CHR 0xB2) = CHR 0xB2" "lower_char (CHR 0xB3) = CHR 0xB3"
  "lower_char (CHR 0xB4) = CHR 0xB4" "lower_char (CHR 0xB5) = CHR 0xB5" "lower_char (CHR 0xB6) = CHR 0xB6"
  "lower_char (CHR 0xB7) = CHR 0xB7" "lower_char (CHR 0xB8) = CHR 0xB8" "lower_char (CHR 0xB9) = CHR 0xB9"
  "lower_char (CHR 0xBA) = CHR 0xBA" "lower_char (CHR 0xBB) = CHR 0xBB" "lower_char (CHR 0xBC) = CHR 0xBC"
  "lower_char (CHR 0xBD) = CHR 0xBD" "lower_char (CHR 0xBE) = CHR 0xBE" "lower_char (CHR 0xBF) = CHR 0xBF"
  "lower_char (CHR 0xC0) = CHR 0xC0" "lower_char (CHR 0xC1) = CHR 0xC1" "lower_char (CHR 0xC2) = CHR 0xC2"
  "lower_char (CHR 0xC3) = CHR 0xC3" "lower_char (CHR 0xC4) = CHR 0xC4" "lower_char (CHR 0xC5) = CHR 0xC5"
  "lower_char (CHR 0xC6) = CHR 0xC6" "lower_char (CHR 0xC7) = CHR 0xC7" "lower_char (CHR 0xC8) = CHR 0xC8"
  "lower_char (CHR 0xC9) = CHR 0xC9" "lower_char (CHR 0xCA) = CHR 0xCA" "lower_char (CHR 0xCB) = CHR 0xCB"
  "lower_char (CHR 0xCC) = CHR 0xCC" "lower_char (CHR 0xCD) = CHR 0xCD" "lower_char (CHR 0xCE) = CHR 0xCE"
  "lower_char (CHR 0xCF) = CHR 0xCF" "lower_char (CHR 0xD0) = CHR 0xD0" "lower_char (CHR 0xD1) = CHR 0xD1"
  "lower_char (CHR 0xD2) = CHR 0xD2" "lower_char (CHR 0xD3) = CHR 0xD3" "lower_char (CHR 0xD4) = CHR 0xD4"
  "lower_char (CHR 0xD5) = CHR 0xD5" "lower_char (CHR 0xD6) = CHR 0xD6" "lower_char (CHR 0xD7) = CHR 0xD7"
  "lower_char (CHR 0xD8) = CHR 0xD8" "lower_char (CHR 0xD9) = CHR 0xD9" "lower_char (CHR 0xDA) = CHR 0xDA"
  "lower_char (CHR 0xDB) = CHR 0xDB" "lower_char (CHR 0xDC) = CHR 0xDC" "lower_char (CHR 0xDD) = CHR 0xDD"
  "lower_char (CHR 0xDE) = CHR 0xDE" "lower_char (CHR 0xDF) = CHR 0xDF" "lower_char (CHR 0xE0) = CHR 0xE0"
  "lower_char (CHR 0xE1) = CHR 0xE1" "lower_char (CHR 0xE2) = CHR 0xE2" "lower_char (CHR 0xE3) = CHR 0xE3"
  "lower_char (CHR 0xE4) = CHR 0xE4" "lower_char (CHR 0xE5) = CHR 0xE5" "lower_char (CHR 0xE6) = CHR 0xE6"
  "lower_char (CHR 0xE7) = CHR 0xE7" "lower_char (CHR 0xE8) = CHR 0xE8" "lower_char (CHR 0xE9) = CHR 0xE9"
  "lower_char (CHR 0xEA) = CHR 0xEA" "lower_char (CHR 0xEB) = CHR 0xEB" "lower_char (CHR 0xEC) = CHR 0xEC"
  "lower_char (CHR 0xED) = CHR 0xED" "lower_char (CHR 0xEE) = CHR 0xEE" "lower_char (CHR 0xEF) = CHR 0xEF"
  "lower_char (CHR 0xF0) = CHR 0xF0" "lower_char (CHR 0xF1) = CHR 0xF1" "lower_char (CHR 0xF2) = CHR 0xF2"
  "lower_char (CHR 0xF3) = CHR 0xF3" "lower_char (CHR 0xF4) = CHR 0xF4" "lower_char (CHR 0xF5) = CHR 0xF5"
  "lower_char (CHR 0xF6) = CHR 0xF6" "lower_char (CHR 0xF7) = CHR 0xF7" "lower_char (CHR 0xF8) = CHR 0xF8"
  "lower_char (CHR 0xF9) = CHR 0xF9" "lower_char (CHR 0xFA) = CHR 0xFA" "lower_char (CHR 0xFB) = CHR 0xFB"
  "lower_char (CHR 0xFC) = CHR 0xFC" "lower_char (CHR 0xFD) = CHR 0xFD" "lower_char (CHR 0xFE) = CHR 0xFE"
  "lower_char (CHR 0xFF) = CHR 0xFF"
  by (simp_all add: lower_char_def)

section \<open>Keyword scoring\<close>

lemma keyword_score_total:
  "keyword_score txt keywords =
     Inr (if keywords \<noteq> []
          then of_nat (length (filter (\<lambda>k. contains (lower txt) (lower k)) keywords))
               / of_nat (length keywords)
          else 0,
          filter (\<lambda>k. contains (lower txt) (lower k)) keywords)"
  by (simp add: keyword_score_def py_truediv_def Let_def)

text \<open>
  C10. With an empty keyword list \<open>keyword_score\<close> returns score \<open>0\<close> and no matched
  keyword, for every text. The division never raises: \<open>keyword_score\<close> returns a value
  for every keyword list, and so does the classifier for every choice of the four keyword
  lists, the empty list included.
\<close>

theorem keyword_score_empty_guarded:
  "keyword_score txt [] = Inr (0, [])
   \<and> (\<exists>r. keyword_score txt keywords = Inr r)
   \<and> (\<exists>c. classify_sentence_with dk ik pk ek s0 = Inr c)"
  by (simp add: keyword_score_total classify_sentence_with_def Let_def)

section \<open>Appeal eligibility\<close>

text \<open>
  C7. \<open>check_appeal_eligibility\<close> answers \<open>eligible\<close> exactly when one of the four
  conditions holds (a denial, the key \<open>section_8\<close> among the section references, an
  evasive sentence, or no informative sentence and more than three neutral ones); the
  reasons are one entry per condition that holds, in that order; the appeal type, deadline
  and authority are fixed texts.
\<close>

theorem check_appeal_eligibility_conditions:
  "(let stats = get_stats sr;
        c1 = denial_count stats > 0;
        c2 = ''section_8'' \<in> set (map fst (StructuredRTIResponse.section_references sr));
        c3 = evasive_count stats > 0;
        c4 = (informative_count stats = 0 \<and> neutral_count stats > 3);
        r = check_appeal_eligibility sr
    in eligible r = (c1 \<or> c2 \<or> c3 \<or> c4)
       \<and> reasons r =
           (if c1 then [''Information was denied''] else [])
           @ (if c2 then [''Section 8 exemptions were cited''] else [])
           @ (if c3 then [''Response contains evasive/unclear statements''] else [])
           @ (if c4 then [''Response does not adequately address the query''] else [])
       \<and> length (reasons r) =
           (if c1 then 1 else 0) + (if c2 then 1 else 0) + (if c3 then 1 else 0)
           + (if c4 then 1 else 0)
       \<and> appeal_type r = ''First Appeal under Section 19(1)''
       \<and> appeal_deadline r = ''30 days from receipt of response''
       \<and> authority r = ''First Appellate Authority (FAA)'')"
  by (simp add: check_appeal_eligibility_def Let_def)

theorem check_appeal_eligibility_conditions_witness:
  "eligible (check_appeal_eligibility scenario3_response)
   \<and> reasons (check_appeal_eligibility scenario3_response) =
       [''Information was denied'', ''Response does not adequately address the query'']"
  using check_appeal_eligibility_conditions [of scenario3_response]
  by (simp add: Let_def get_stats_def scenario3_response_def)

section \<open>The action rule engine\<close>

lemma suggestion_fields:
  "priority file_first_appeal = ''high''"
  "title file_first_appeal = ''File First Appeal''"
  "action_type file_first_appeal = FIRST_APPEAL"
  "priority request_clarification = ''high''"
  "title request_clarification = ''Request Clarification''"
  "priority challenge_exemption_claim = ''high''"
  "title challenge_exemption_claim = ''Challenge Exemption Claim''"
  "priority pay_additional_fee = ''medium''"
  "title pay_additional_fee = ''Pay Additional Fee''"
  "priority application_transferred = ''low''"
  "title application_transferred = ''Application Transferred''"
  "priority response_complete = ''low''"
  "title response_complete = ''Response Complete''"
  "priority review_response_carefully = ''low''"
  "title review_response_carefully = ''Review Response Carefully''"
  by (simp_all add: file_first_appeal_def request_clarification_def
      challenge_exemption_claim_def pay_additional_fee_def application_transferred_def
      response_complete_def review_response_carefully_def)

lemma fired_suggestions_rules:
  "set (fired_suggestions sr) \<subseteq>
     {file_first_appeal, request_clarification, challenge_exemption_claim,
      pay_additional_fee, application_transferred, response_complete}"
  by (auto simp: fired_suggestions_def rule4_def Let_def)

lemma review_not_fired: "review_response_carefully \<notin> set (fired_suggestions sr)"
proof
  assume "review_response_carefully \<in> set (fired_suggestions sr)"
  then have "title review_response_carefully \<in>
      title ` {file_first_appeal, request_clarification, challenge_exemption_claim,
               pay_additional_fee, application_transferred, response_complete}"
    using fired_suggestions_rules [of sr] by blast
  then show False
    by (simp add: suggestion_fields)
qed

lemma fired_subset: "set (fired_suggestions sr) \<subseteq> all_suggestions - {review_response_carefully}"
  using fired_suggestions_rules [of sr] review_not_fired [of sr]
  by (auto simp: all_suggestions_def)

lemma priority_rank:
  assumes "s \<in> all_suggestions"
  shows "priority s \<in> {''high'', ''medium'', ''low''}"
    and "(priority s = ''high'') = (priority_order s = 0)"
    and "(priority s = ''medium'') = (priority_order s = 1)"
    and "(priority s = ''low'') = (priority_order s = 2)"
  using assms
  by (auto simp: all_suggestions_def priority_order_def suggestion_fields)

lemma review_title:
  assumes "s \<in> all_suggestions"
  shows "(title s = ''Review Response Carefully'') = (s = review_response_carefully)"
  using assms
  by (auto simp: all_suggestions_def suggestion_fields)

lemma stable_on_priority:
  assumes "set xs \<subseteq> all_suggestions"
  shows "filter (\<lambda>s. priority s = p) (sort_key priority_order xs)
       = filter (\<lambda>s. priority s = p) xs"
proof -
  have sub: "set (sort_key priority_order xs) \<subseteq> all_suggestions"
    using assms by simp
  have by_rank: "filter (\<lambda>s. priority s = p) (sort_key priority_order xs)
       = filter (\<lambda>s. priority s = p) xs"
    if "\<And>s. s \<in> all_suggestions \<Longrightarrow> (priority s = p) = (priority_order s = k)" for k
  proof -
    have "filter (\<lambda>s. priority s = p) (sort_key priority_order xs)
        = filter (\<lambda>s. priority_order s = k) (sort_key priority_order xs)"
      using sub that by (intro filter_cong) auto
    also have "\<dots> = filter (\<lambda>s. priority_order s = k) xs"
      by (rule sort_key_stable)
    also have "\<dots> = filter (\<lambda>s. priority s = p) xs"
      using assms that by (intro filter_cong) auto
    finally show ?thesis .
  qed
  consider "p = ''high''" | "p = ''medium''" | "p = ''low''"
    | "p \<notin> {''high'', ''medium'', ''low''}"
    by blast
  then show ?thesis
  proof cases
    case 1
    then show ?thesis using by_rank [of 0] priority_rank(2) by blast
  next
    case 2
    then show ?thesis using by_rank [of 1] priority_rank(3) by blast
  next
    case 3
    then show ?thesis using by_rank [of 2] priority_rank(4) by blast
  next
    case 4
    have "filter (\<lambda>s. priority s = p) (sort_key priority_order xs) = []"
      using sub 4 priority_rank(1) by (fastforce simp: filter_empty_conv)
    moreover have "filter (\<lambda>s. priority s = p) xs = []"
      using assms 4 priority_rank(1) by (fastforce simp: filter_empty_conv)
    ultimately show ?thesis by simp
  qed
qed

lemma suggest_next_steps_sort:
  "suggest_next_steps sr =
     sort_key priority_order
       (if fired_suggestions sr = [] then [review_response_carefully]
        else fired_suggestions sr)"
  by (simp add: suggest_next_steps_def Let_def)

lemma suggest_next_steps_set:
  "set (suggest_next_steps sr) =
     (if fired_suggestions sr = [] then {review_response_carefully}
      else set (fired_suggestions sr))"
  by (simp add: suggest_next_steps_sort)

lemma suggest_next_steps_subset: "set (suggest_next_steps sr) \<subseteq> all_suggestions"
  using fired_subset [of sr] by (auto simp: suggest_next_steps_set all_suggestions_def)

lemma fired_empty_iff:
  "fired_suggestions sr = [] \<longleftrightarrow>
     \<not> (denial_ratio (get_stats sr) > 3 / 10 \<or> denial_count (get_stats sr) \<ge> 2)
   \<and> \<not> (evasive_count (get_stats sr) \<ge> 2
        \<or> (evasive_count (get_stats sr) > 0 \<and> informative_count (get_stats sr) = 0))
   \<and> ''section_8'' \<notin> set (map fst (StructuredRTIResponse.section_references sr))
   \<and> \<not> (procedural_count (get_stats sr) > 0
        \<and> (\<exists>w \<in> {''fee'', ''deposit'', ''payment'', ''transfer'', ''forward''}.
              contains (join '' '' (map (\<lambda>s. lower (text s)) (procedural_sentences sr))) w))
   \<and> \<not> (informative_ratio (get_stats sr) > 6 / 10 \<and> denial_count (get_stats sr) = 0)"
  by (simp add: fired_suggestions_def rule4_def Let_def)

text \<open>
  C6. For every structured response \<open>suggest_next_steps\<close> returns a non-empty list; every
  priority is high, medium or low and the ranks (high 0, medium 1, low 2) never decrease
  along the list; the suggestions of each priority stand in the order in which their rules
  fired; and the suggestion titled "Review Response Carefully" is in the list exactly when
  none of the rules 1 to 5 fired, that is, when none of their conditions holds.
\<close>

theorem suggest_next_steps_sorted_nonempty:
  "suggest_next_steps sr \<noteq> []
   \<and> set (map priority (suggest_next_steps sr)) \<subseteq> {''high'', ''medium'', ''low''}
   \<and> sorted (map priority_order (suggest_next_steps sr))
   \<and> (\<forall>p. filter (\<lambda>s. priority s = p) (suggest_next_steps sr)
          = filter (\<lambda>s. priority s = p)
              (if fired_suggestions sr = [] then [review_response_carefully]
               else fired_suggestions sr))
   \<and> ((\<exists>s \<in> set (suggest_next_steps sr). title s = ''Review Response Carefully'')
        \<longleftrightarrow> fired_suggestions sr = [])
   \<and> (fired_suggestions sr = [] \<longleftrightarrow>
         \<not> (denial_ratio (get_stats sr) > 3 / 10 \<or> denial_count (get_stats sr) \<ge> 2)
       \<and> \<not> (evasive_count (get_stats sr) \<ge> 2
            \<or> (evasive_count (get_stats sr) > 0 \<and> informative_count (get_stats sr) = 0))
       \<and> ''section_8'' \<notin> set (map fst (StructuredRTIResponse.section_references sr))
       \<and> \<not> (procedural_count (get_stats sr) > 0
            \<and> (\<exists>w \<in> {''fee'', ''deposit'', ''payment'', ''transfer'', ''forward''}.
                  contains (join '' '' (map (\<lambda>s. lower (text s)) (procedural_sentences sr))) w))
       \<and> \<not> (informative_ratio (get_stats sr) > 6 / 10 \<and> denial_count (get_stats sr) = 0))"
proof -
  let ?unsorted = "if fired_suggestions sr = [] then [review_response_carefully]
                   else fired_suggestions sr"
  have "length (suggest_next_steps sr) = length ?unsorted"
    by (simp add: suggest_next_steps_sort)
  moreover have "?unsorted \<noteq> []"
    by simp
  ultimately have ne: "suggest_next_steps sr \<noteq> []"
    by auto
  have pr: "set (map priority (suggest_next_steps sr)) \<subseteq> {''high'', ''medium'', ''low''}"
    using suggest_next_steps_subset [of sr] priority_rank(1) by auto
  have so: "sorted (map priority_order (suggest_next_steps sr))"
    by (simp add: suggest_next_steps_sort)
  have "set ?unsorted \<subseteq> all_suggestions"
    using fired_subset [of sr] by (auto simp: all_suggestions_def)
  then have st: "\<forall>p. filter (\<lambda>s. priority s = p) (suggest_next_steps sr)
                    = filter (\<lambda>s. priority s = p) ?unsorted"
    unfolding suggest_next_steps_sort using stable_on_priority by blast
  have "(\<exists>s \<in> set (suggest_next_steps sr). title s = ''Review Response Carefully'')
        \<longleftrightarrow> review_response_carefully \<in> set (suggest_next_steps sr)"
    using suggest_next_steps_subset [of sr] review_title by blast
  also have "\<dots> \<longleftrightarrow> fired_suggestions sr = []"
    using review_not_fired [of sr] by (auto simp: suggest_next_steps_set)
  finally have rv: "(\<exists>s \<in> set (suggest_next_steps sr). title s = ''Review Response Carefully'')
        \<longleftrightarrow> fired_suggestions sr = []" .
  show ?thesis
    using ne pr so st rv fired_empty_iff [of sr] by blast
qed

lemma mixed_response_suggestions:
  "suggest_next_steps mixed_response =
     [file_first_appeal, pay_additional_fee, application_transferred]"
  by code_simp

theorem suggest_next_steps_sorted_nonempty_witness:
  "suggest_next_steps mixed_response \<noteq> []
   \<and> sorted (map priority_order (suggest_next_steps mixed_response))
   \<and> map title (suggest_next_steps mixed_response) =
       [''File First Appeal'', ''Pay Additional Fee'', ''Application Transferred'']
   \<and> fired_suggestions mixed_response \<noteq> []"
  using suggest_next_steps_sorted_nonempty [of mixed_response]
  by (auto simp: mixed_response_suggestions suggestion_fields)

section \<open>Scenario 3: ten sentences, four denials, none informative\<close>

lemma report_overall_assessment:
  "overall_assessment (generate_action_report sr) = get_overall_assessment sr"
  by (simp add: generate_action_report_def Let_def)

lemma report_suggestions:
  "suggestions (generate_action_report sr) =
     map (\<lambda>s. \<lparr>action = action_value (action_type s), entry_priority = priority s,
                entry_title = title s, entry_description = description s,
                entry_deadline = deadline s, entry_reference = reference s\<rparr>)
       (suggest_next_steps sr)"
  by (simp add: generate_action_report_def Let_def)

lemma get_stats_ratios:
  "denial_ratio (get_stats sr) =
     (if total_sentences (get_stats sr) > 0
      then of_nat (denial_count (get_stats sr)) / of_nat (total_sentences (get_stats sr))
      else 0)"
  "informative_ratio (get_stats sr) =
     (if total_sentences (get_stats sr) > 0
      then of_nat (informative_count (get_stats sr)) / of_nat (total_sentences (get_stats sr))
      else 0)"
  by (simp_all add: get_stats_def Let_def)

lemma scenario3_ratios:
  assumes "total_sentences (get_stats sr) = 10"
    and "denial_count (get_stats sr) = 4"
    and "informative_count (get_stats sr) = 0"
  shows "denial_ratio (get_stats sr) = 4 / 10"
    and "informative_ratio (get_stats sr) = 0"
  using assms by (simp_all add: get_stats_ratios)

lemma scenario3_response_stats:
  "total_sentences (get_stats scenario3_response) = 10"
  "denial_count (get_stats scenario3_response) = 4"
  "informative_count (get_stats scenario3_response) = 0"
  "evasive_count (get_stats scenario3_response) = 0"
  by (simp_all add: get_stats_def Let_def scenario3_response_def)

lemma classify_denial_example:
  "classify_sentence ''It is denied and refused.'' = Inr denial_example"
  by code_simp

lemma classify_neutral_example:
  "classify_sentence ''Thank you so much.'' = Inr neutral_example"
  by code_simp

lemma scenario3_sentences:
  "rti_semantic_split_into_sentences scenario3_text =
     replicate 4 ''It is denied and refused.'' @ replicate 6 ''Thank you so much.''"
  by code_simp

lemma scenario3_sections: "detect_rti_sections scenario3_text = []"
  by code_simp

lemma scenario3_document:
  "extract_structured_response scenario3_text = Inr scenario3_response"
  by (simp add: extract_structured_response_def scenario3_sentences scenario3_sections
      classify_denial_example classify_neutral_example add_classified_def
      denial_example_def neutral_example_def scenario3_response_def numeral_eq_Suc)

text \<open>
  C1 as stated fails: the document \<open>scenario3_text\<close> is classified into ten sentences,
  four of them denials and none informative, its denial ratio is \<open>4 / 10\<close>, and the overall
  assessment of its report is the PARTIAL label, not the UNSATISFACTORY one.
\<close>

theorem scenario3_not_unsatisfactory:
  "extract_structured_response scenario3_text = Inr scenario3_response
   \<and> total_sentences (get_stats scenario3_response) = 10
   \<and> denial_count (get_stats scenario3_response) = 4
   \<and> informative_count (get_stats scenario3_response) = 0
   \<and> denial_ratio (get_stats scenario3_response) = 4 / 10
   \<and> overall_assessment (generate_action_report scenario3_response) =
       ''PARTIAL - Some information provided, review for completeness''
   \<and> overall_assessment (generate_action_report scenario3_response) \<noteq>
       ''UNSATISFACTORY - Significant information denied, consider appeal''"
  using scenario3_ratios [OF scenario3_response_stats(1-3)]
  by (simp add: scenario3_document scenario3_response_stats report_overall_assessment
      get_overall_assessment_def Let_def)

text \<open>
  C1, amended. For every structured response with ten sentences, four of them denials and
  none informative, the denial ratio \<open>4 / 10\<close> is not above the threshold \<open>0.4\<close>, so the
  overall assessment is never the UNSATISFACTORY label: it is the INADEQUATE label when
  there is an evasive sentence and the PARTIAL label otherwise. The suggestions of the
  report contain the high-priority File First Appeal suggestion.
\<close>

theorem scenario3_assessment:
  assumes "total_sentences (get_stats sr) = 10"
    and "denial_count (get_stats sr) = 4"
    and "informative_count (get_stats sr) = 0"
  shows "overall_assessment (generate_action_report sr) =
           (if evasive_count (get_stats sr) > 0
            then ''INADEQUATE - Response is vague and non-committal''
            else ''PARTIAL - Some information provided, review for completeness'')
       \<and> overall_assessment (generate_action_report sr) \<noteq>
           ''UNSATISFACTORY - Significant information denied, consider appeal''
       \<and> (\<exists>e \<in> set (suggestions (generate_action_report sr)).
             action e = ''first_appeal'' \<and> entry_priority e = ''high''
             \<and> entry_title e = ''File First Appeal'')"
proof -
  note ratios = scenario3_ratios [OF assms]
  have overall: "overall_assessment (generate_action_report sr) =
           (if evasive_count (get_stats sr) > 0
            then ''INADEQUATE - Response is vague and non-committal''
            else ''PARTIAL - Some information provided, review for completeness'')"
    using assms(3) by (simp add: report_overall_assessment get_overall_assessment_def Let_def ratios)
  have "file_first_appeal \<in> set (fired_suggestions sr)"
    by (simp add: fired_suggestions_def rule4_def Let_def ratios assms)
  then have "file_first_appeal \<in> set (suggest_next_steps sr)"
    by (auto simp: suggest_next_steps_set)
  then have "\<exists>e \<in> set (suggestions (generate_action_report sr)).
             action e = ''first_appeal'' \<and> entry_priority e = ''high''
             \<and> entry_title e = ''File First Appeal''"
    by (force simp: report_suggestions suggestion_fields action_value_def)
  with overall show ?thesis
    by simp
qed

theorem scenario3_assessment_witness:
  "total_sentences (get_stats scenario3_response) = 10
   \<and> denial_count (get_stats scenario3_response) = 4
   \<and> informative_count (get_stats scenario3_response) = 0
   \<and> overall_assessment (generate_action_report scenario3_response) =
       ''PARTIAL - Some information provided, review for completeness''
   \<and> (\<exists>e \<in> set (suggestions (generate_action_report scenario3_response)).
         action e = ''first_appeal'' \<and> entry_priority e = ''high''
         \<and> entry_title e = ''File First Appeal'')"
  using scenario3_assessment [OF scenario3_response_stats(1-3)]
  by (simp add: scenario3_response_stats)

section \<open>Fact anchors\<close>

lemma distinct_submset:
  assumes "mset xs \<subseteq># mset ys" and "distinct ys"
  shows "distinct xs"
proof -
  have le1: "count (mset xs) a \<le> 1" for a
  proof -
    have "count (mset xs) a \<le> count (mset ys) a"
      using assms(1) by (rule mset_subset_eq_count)
    also have "\<dots> \<le> 1"
      using assms(2) by (simp add: distinct_count_atmost_1)
    finally show ?thesis .
  qed
  show ?thesis
    unfolding distinct_count_atmost_1
  proof (intro allI)
    fix a
    show "count (mset xs) a = (if a \<in> set xs then 1 else 0)"
    proof (cases "a \<in> set xs")
      case True
      then have "count (mset xs) a \<noteq> 0"
        by simp
      then have "count (mset xs) a = 1"
        using le1 [of a] by linarith
      with True show ?thesis
        by simp
    next
      case False
      then show ?thesis
        by simp
    qed
  qed
qed

lemma score_sentences_sentence: "map sentence (score_sentences ss) = ss"
  by (simp add: score_sentences_def comp_def)

lemma score_sentences_score:
  "x \<in> set (score_sentences ss) \<Longrightarrow> score x = fst (calculate_sentence_score (sentence x))"
  by (auto simp: score_sentences_def)

lemma slice_to_take: "\<exists>k. slice_to xs n = take k xs \<and> (0 \<le> n \<longrightarrow> k = nat n)"
  by (auto simp: slice_to_def)

lemma select_anchors_sublist:
  assumes "sorted (map (\<lambda>x. - score x) xs)"
  shows "\<exists>ys. select_anchors xs n = map sentence ys
           \<and> mset ys \<subseteq># mset xs
           \<and> sorted_wrt (\<lambda>a b. score a \<ge> score b) ys
           \<and> (0 \<le> n \<longrightarrow> int (length ys) \<le> max 2 n)"
proof -
  have desc: "sorted_wrt (\<lambda>a b. score a \<ge> score b) xs"
    using assms by (simp add: sorted_map)
  obtain k where k: "slice_to xs n = take k xs" "0 \<le> n \<longrightarrow> k = nat n"
    using slice_to_take by blast
  let ?main = "filter (\<lambda>item. score item \<ge> 1) (take k xs)"
  have main: "mset ?main \<subseteq># mset xs" "sorted_wrt (\<lambda>a b. score a \<ge> score b) ?main"
      "0 \<le> n \<longrightarrow> int (length ?main) \<le> max 2 n"
  proof -
    have "mset ?main \<subseteq># mset (take k xs)"
      by simp
    also have "\<dots> \<subseteq># mset xs"
      by (metis append_take_drop_id mset_append mset_subset_eq_add_left)
    finally show "mset ?main \<subseteq># mset xs" .
    show "sorted_wrt (\<lambda>a b. score a \<ge> score b) ?main"
      using desc by (simp add: sorted_wrt_filter sorted_wrt_take)
    have "length ?main \<le> length (take k xs)"
      by (rule length_filter_le)
    also have "\<dots> \<le> k"
      by simp
    finally show "0 \<le> n \<longrightarrow> int (length ?main) \<le> max 2 n"
      using k(2) by auto
  qed
  have fallback: "mset (take 2 xs) \<subseteq># mset xs"
      "sorted_wrt (\<lambda>a b. score a \<ge> score b) (take 2 xs)"
      "int (length (take 2 xs)) \<le> max 2 n"
    using desc by (auto simp: sorted_wrt_take) (metis append_take_drop_id mset_append mset_subset_eq_add_left)
  show ?thesis
  proof (cases "map sentence ?main = [] \<and> xs \<noteq> []")
    case True
    then have "select_anchors xs n = map sentence (take 2 xs)"
      by (simp add: select_anchors_def k(1) Let_def)
    then show ?thesis using fallback by blast
  next
    case False
    then have "select_anchors xs n = map sentence ?main"
      by (simp add: select_anchors_def k(1) Let_def)
    then show ?thesis using main by blast
  qed
qed

lemma extract_fact_anchors_sublist:
  "\<exists>ys. extract_fact_anchors txt n = map sentence ys
      \<and> mset ys \<subseteq># mset (score_sentences (fact_extractor_split_into_sentences txt))
      \<and> sorted_wrt (\<lambda>a b. score a \<ge> score b) ys
      \<and> (0 \<le> n \<longrightarrow> int (length ys) \<le> max 2 n)"
proof (cases "fact_extractor_split_into_sentences txt = []")
  case True
  then have "extract_fact_anchors txt n = map sentence []"
    by (simp add: extract_fact_anchors_def)
  then show ?thesis by force
next
  case False
  let ?xs = "sort_key (\<lambda>x. - score x) (score_sentences (fact_extractor_split_into_sentences txt))"
  have "extract_fact_anchors txt n = select_anchors ?xs n"
    using False by (simp add: extract_fact_anchors_def Let_def)
  moreover have "sorted (map (\<lambda>x. - score x) ?xs)"
    by simp
  ultimately show ?thesis
    using select_anchors_sublist [of ?xs n] by auto
qed

lemma two_plain_sentences:
  "extract_fact_anchors ''It rained all night. It rained all day ok.'' 1 =
     [''It rained all night.'', ''It rained all day ok.'']"
  by code_simp

lemma two_fact_sentences_split:
  "fact_extractor_split_into_sentences
     ''The file was transferred to the office. Rs. 500 was credited on 12/10/2024.'' =
     [''The file was transferred to the office.'', ''Rs. 500 was credited on 12/10/2024.'']"
  by code_simp

lemma two_fact_sentences_scores:
  "fst (calculate_sentence_score ''The file was transferred to the office.'') = 3"
  "fst (calculate_sentence_score ''Rs. 500 was credited on 12/10/2024.'') = 10"
  by code_simp+

lemma two_fact_sentences:
  "extract_fact_anchors
     ''The file was transferred to the office. Rs. 500 was credited on 12/10/2024.'' 5 =
     [''Rs. 500 was credited on 12/10/2024.'', ''The file was transferred to the office.'']"
  by (simp add: extract_fact_anchors_def two_fact_sentences_split score_sentences_def
      two_fact_sentences_scores select_anchors_def slice_to_def Let_def)

lemma repeated_sentence:
  "extract_fact_anchors ''The fee was received today. The fee was received today.'' 5 =
     [''The fee was received today.'', ''The fee was received today.'']"
  by code_simp

text \<open>
  C2 as stated fails: asked for one anchor, \<open>extract_fact_anchors\<close> returns two when no
  sentence reaches the score \<open>1.0\<close>.
\<close>

theorem fallback_exceeds_top_n:
  "extract_fact_anchors ''It rained all night. It rained all day ok.'' 1 =
     [''It rained all night.'', ''It rained all day ok.'']
   \<and> \<not> int (length (extract_fact_anchors ''It rained all night. It rained all day ok.'' 1)) \<le> 1"
  by (simp add: two_plain_sentences)

text \<open>
  C2, amended. For every text and every \<open>top_n \<ge> 0\<close>, \<open>extract_fact_anchors\<close> returns at
  most \<open>max(top_n, 2)\<close> sentences (the fallback returns the two best-scoring sentences
  whatever \<open>top_n\<close> is); and for every \<open>top_n\<close> the fact-density scores of the returned
  sentences are non-increasing along the returned sequence.
\<close>

theorem extract_fact_anchors_bounded_sorted:
  "(0 \<le> top_n \<longrightarrow> int (length (extract_fact_anchors txt top_n)) \<le> max 2 top_n)
   \<and> sorted_wrt (\<ge>)
        (map (\<lambda>s. fst (calculate_sentence_score s)) (extract_fact_anchors txt top_n))"
proof -
  obtain ys where ys: "extract_fact_anchors txt top_n = map sentence ys"
      "mset ys \<subseteq># mset (score_sentences (fact_extractor_split_into_sentences txt))"
      "sorted_wrt (\<lambda>a b. score a \<ge> score b) ys"
      "0 \<le> top_n \<longrightarrow> int (length ys) \<le> max 2 top_n"
    using extract_fact_anchors_sublist by blast
  have "set ys \<subseteq> set (score_sentences (fact_extractor_split_into_sentences txt))"
    using ys(2) by (metis set_mset_mono set_mset_mset)
  then have eq: "map (\<lambda>s. fst (calculate_sentence_score s)) (extract_fact_anchors txt top_n)
               = map score ys"
    unfolding ys(1) by (auto simp: score_sentences_score)
  have srt: "sorted_wrt (\<ge>) (map score ys)"
    using ys(3) by (simp add: sorted_wrt_map)
  have len: "length (extract_fact_anchors txt top_n) = length ys"
    by (simp add: ys(1))
  show ?thesis
    unfolding eq len using srt ys(4) by blast
qed

theorem extract_fact_anchors_bounded_sorted_witness:
  "(0::int) \<le> 5
   \<and> int (length (extract_fact_anchors
        ''The file was transferred to the office. Rs. 500 was credited on 12/10/2024.'' 5)) \<le> 5
   \<and> map (\<lambda>s. fst (calculate_sentence_score s))
        (extract_fact_anchors
          ''The file was transferred to the office. Rs. 500 was credited on 12/10/2024.'' 5)
       = [10, 3]"
  using extract_fact_anchors_bounded_sorted
    [of 5 "''The file was transferred to the office. Rs. 500 was credited on 12/10/2024.''"]
  by (simp add: two_fact_sentences two_fact_sentences_scores)

text \<open>
  C3 as stated fails: a sentence that occurs twice in the text is returned twice.
\<close>

theorem repeated_sentence_returned_twice:
  "extract_fact_anchors ''The fee was received today. The fee was received today.'' 5 =
     [''The fee was received today.'', ''The fee was received today.'']
   \<and> \<not> distinct
        (extract_fact_anchors ''The fee was received today. The fee was received today.'' 5)"
  by (simp add: repeated_sentence)

text \<open>
  C3, amended. For every text and every \<open>top_n\<close>, a sentence occurs in the output of
  \<open>extract_fact_anchors\<close> at most as often as among the sentences the fact-anchor segmenter
  finds in the text; so the output has no duplicate whenever those sentences are pairwise
  distinct.
\<close>

theorem extract_fact_anchors_no_new_duplicates:
  "mset (extract_fact_anchors txt top_n) \<subseteq># mset (fact_extractor_split_into_sentences txt)
   \<and> (distinct (fact_extractor_split_into_sentences txt)
        \<longrightarrow> distinct (extract_fact_anchors txt top_n))"
proof -
  obtain ys where ys: "extract_fact_anchors txt top_n = map sentence ys"
      "mset ys \<subseteq># mset (score_sentences (fact_extractor_split_into_sentences txt))"
    using extract_fact_anchors_sublist by blast
  have "mset (map sentence ys) \<subseteq># mset (map sentence (score_sentences (fact_extractor_split_into_sentences txt)))"
    using ys(2) by (simp add: image_mset_subseteq_mono)
  then have sub: "mset (extract_fact_anchors txt top_n) \<subseteq># mset (fact_extractor_split_into_sentences txt)"
    by (simp add: ys(1) score_sentences_sentence)
  then have "distinct (fact_extractor_split_into_sentences txt)
        \<longrightarrow> distinct (extract_fact_anchors txt top_n)"
    using distinct_submset by blast
  with sub show ?thesis
    by simp
qed

theorem extract_fact_anchors_no_new_duplicates_witness:
  "distinct (fact_extractor_split_into_sentences
      ''The file was transferred to the office. Rs. 500 was credited on 12/10/2024.'')
   \<and> distinct (extract_fact_anchors
      ''The file was transferred to the office. Rs. 500 was credited on 12/10/2024.'' 5)"
  using extract_fact_anchors_no_new_duplicates
    [of "''The file was transferred to the office. Rs. 500 was credited on 12/10/2024.''" 5]
  by (simp add: two_fact_sentences_split)

section \<open>The sentence classifier\<close>

lemma find_best_fold:
  fixes xs :: "(SentenceCategory \<times> rat \<times> string list) list"
  shows "fold (\<lambda>(category, score, keywords) (best_category, best_score, best_keywords).
             if score > best_score then (category, score, keywords)
             else (best_category, best_score, best_keywords)) xs acc
   = (if \<exists>x \<in> set xs. fst (snd acc) < fst (snd x)
      then hd (filter (\<lambda>x. fst (snd x) = Max (set (map (fst \<circ> snd) xs))) xs)
      else acc)"
proof (induction xs arbitrary: acc)
  case Nil
  then show ?case by simp
next
  case (Cons x xs)
  let ?sc = "\<lambda>x :: SentenceCategory \<times> rat \<times> string list. fst (snd x)"
  let ?step = "\<lambda>(category, score, keywords) (best_category, best_score, best_keywords).
             if score > best_score then (category, score :: rat, keywords :: string list)
             else (best_category :: SentenceCategory, best_score, best_keywords)"
  let ?acc' = "if ?sc x > ?sc acc then x else acc"
  have step: "?step x acc = ?acc'"
    by (cases x; cases acc) auto
  have Max_cons: "Max (set (map (fst \<circ> snd) (x # xs))) =
      (if xs = [] then ?sc x else max (?sc x) (Max (set (map (fst \<circ> snd) xs))))"
    by (cases xs) (auto simp: max_def)
  have Max_ge: "y \<in> set xs \<Longrightarrow> ?sc y \<le> Max (set (map (fst \<circ> snd) xs))" for y
    by (simp add: Max_ge)
  have Max_in: "xs \<noteq> [] \<Longrightarrow> \<exists>y \<in> set xs. ?sc y = Max (set (map (fst \<circ> snd) xs))"
  proof -
    assume "xs \<noteq> []"
    then have "Max (set (map (fst \<circ> snd) xs)) \<in> set (map (fst \<circ> snd) xs)"
      by (intro Max_in) auto
    then have "Max (set (map (fst \<circ> snd) xs)) \<in> (fst \<circ> snd) ` set xs"
      by simp
    then obtain y where "y \<in> set xs" "Max (set (map (fst \<circ> snd) xs)) = (fst \<circ> snd) y"
      by (rule imageE)
    then show ?thesis
      by (intro bexI [of _ y]) simp_all
  qed
  show ?case
  proof (cases "\<exists>y \<in> set xs. ?sc ?acc' < ?sc y")
    case True
    then obtain y where y: "y \<in> set xs" "?sc ?acc' < ?sc y" by blast
    then have ne: "xs \<noteq> []" by auto
    have big: "?sc ?acc' < Max (set (map (fst \<circ> snd) xs))"
      using y Max_ge [of y] by linarith
    then have lt: "?sc x < Max (set (map (fst \<circ> snd) xs))"
        "?sc acc < Max (set (map (fst \<circ> snd) xs))"
      by (auto split: if_splits)
    have M: "Max (set (map (fst \<circ> snd) (x # xs))) = Max (set (map (fst \<circ> snd) xs))"
      using ne lt(1) by (simp add: Max_cons max_def)
    have nx: "?sc x \<noteq> Max (set (map (fst \<circ> snd) xs))"
      using lt(1) by simp
    obtain z where z: "z \<in> set xs" "?sc z = Max (set (map (fst \<circ> snd) xs))"
      using Max_in [OF ne] by blast
    then have ex: "\<exists>z \<in> set (x # xs). ?sc acc < ?sc z"
      using lt(2) by (intro bexI [of _ z]) simp_all
    have "fold ?step (x # xs) acc = fold ?step xs ?acc'"
      using step by simp
    also have "\<dots> = hd (filter (\<lambda>x. ?sc x = Max (set (map (fst \<circ> snd) xs))) xs)"
      using Cons.IH [of ?acc'] True by simp
    also have "\<dots> = hd (filter (\<lambda>z. ?sc z = Max (set (map (fst \<circ> snd) (x # xs)))) (x # xs))"
      unfolding M using nx by simp
    finally show ?thesis
      using ex by simp
  next
    case False
    have "fold ?step (x # xs) acc = fold ?step xs ?acc'"
      using step by simp
    also have "\<dots> = ?acc'"
      using Cons.IH [of ?acc'] False by simp
    finally have res: "fold ?step (x # xs) acc = ?acc'" .
    show ?thesis
    proof (cases "?sc x > ?sc acc")
      case True
      then have le: "\<forall>y \<in> set xs. ?sc y \<le> ?sc x"
        using False by (auto simp: not_less)
      have "Max (set (map (fst \<circ> snd) (x # xs))) = ?sc x"
      proof (cases "xs = []")
        case True
        then show ?thesis by simp
      next
        case ne: False
        then obtain y where "y \<in> set xs" "?sc y = Max (set (map (fst \<circ> snd) xs))"
          using Max_in by blast
        then have "Max (set (map (fst \<circ> snd) xs)) \<le> ?sc x"
          using le by metis
        then have "max (?sc x) (Max (set (map (fst \<circ> snd) xs))) = ?sc x"
          by (rule max_absorb1)
        then show ?thesis
          using ne by (simp only: Max_cons if_False)
      qed
      then have "hd (filter (\<lambda>z. ?sc z = Max (set (map (fst \<circ> snd) (x # xs)))) (x # xs)) = x"
        by simp
      then show ?thesis
        using res True by auto
    next
      case F2: False
      then have "\<not> (\<exists>z \<in> set (x # xs). ?sc acc < ?sc z)"
        using False by auto
      then show ?thesis
        using res F2 by auto
    qed
  qed
qed

lemma find_best_first_max:
  assumes "0 < Max (set (map (fst \<circ> snd) scores))" and "scores \<noteq> []"
  shows "find_best scores = hd (filter (\<lambda>x. fst (snd x) = Max (set (map (fst \<circ> snd) scores))) scores)"
proof -
  have "Max (set (map (fst \<circ> snd) scores)) \<in> set (map (fst \<circ> snd) scores)"
    using assms(2) by (intro Max_in) auto
  then have "Max (set (map (fst \<circ> snd) scores)) \<in> (fst \<circ> snd) ` set scores"
    by simp
  then obtain y where "y \<in> set scores" "Max (set (map (fst \<circ> snd) scores)) = (fst \<circ> snd) y"
    by (rule imageE)
  then have "\<exists>x \<in> set scores. 0 < fst (snd x)"
    using assms(1) by (intro bexI [of _ y]) simp_all
  then show ?thesis
    unfolding find_best_def find_best_fold by simp
qed

lemma keyword_score_facts:
  assumes "keyword_score txt keywords = Inr d"
  shows "0 \<le> fst d" and "snd d = [] \<Longrightarrow> fst d = 0"
  using assms by (auto simp: keyword_score_total)

lemma adjusted_scores_categories:
  "map fst (adjusted_scores s d i p e) = [DENIAL, INFORMATIVE, PROCEDURAL, EVASIVE]"
  by (simp add: adjusted_scores_def Let_def)

lemma adjusted_scores_below_floor:
  assumes "x \<in> set (adjusted_scores s d i p e)"
    and "0 < fst (snd x)" and "fst (snd x) < 1 / 10"
    and "0 \<le> fst d" "snd d = [] \<Longrightarrow> fst d = 0"
    and "0 \<le> fst i" "snd i = [] \<Longrightarrow> fst i = 0"
    and "0 \<le> fst p" "snd p = [] \<Longrightarrow> fst p = 0"
    and "0 \<le> fst e" "snd e = [] \<Longrightarrow> fst e = 0"
  shows "snd (snd x) \<noteq> [] \<and> fst x \<noteq> NEUTRAL"
  using assms by (auto simp: adjusted_scores_def Let_def split: if_splits)

lemma first_max_in_set:
  fixes scores :: "(SentenceCategory \<times> rat \<times> string list) list"
  assumes "scores \<noteq> []"
  shows "hd (filter (\<lambda>x. fst (snd x) = Max (set (map (fst \<circ> snd) scores))) scores) \<in> set scores"
    and "fst (snd (hd (filter (\<lambda>x. fst (snd x) = Max (set (map (fst \<circ> snd) scores))) scores)))
          = Max (set (map (fst \<circ> snd) scores))"
proof -
  let ?m = "Max (set (map (fst \<circ> snd) scores))"
  have "?m \<in> set (map (fst \<circ> snd) scores)"
    using assms by (intro Max_in) auto
  then have "?m \<in> (fst \<circ> snd) ` set scores"
    by simp
  then obtain y where "y \<in> set scores" "?m = (fst \<circ> snd) y"
    by (rule imageE)
  then have "y \<in> set (filter (\<lambda>x. fst (snd x) = ?m) scores)"
    by simp
  then have ne: "filter (\<lambda>x. fst (snd x) = ?m) scores \<noteq> []"
    by (metis empty_iff empty_set)
  then have "hd (filter (\<lambda>x. fst (snd x) = ?m) scores) \<in> set (filter (\<lambda>x. fst (snd x) = ?m) scores)"
    by (rule hd_in_set)
  then show "hd (filter (\<lambda>x. fst (snd x) = ?m) scores) \<in> set scores"
    and "fst (snd (hd (filter (\<lambda>x. fst (snd x) = ?m) scores))) = ?m"
    by simp_all
qed

lemma classify_sentence_scored:
  assumes "strip s0 \<noteq> []"
    and "keyword_score (strip s0) DENIAL_KEYWORDS = Inr d"
    and "keyword_score (strip s0) INFORMATIVE_KEYWORDS = Inr i"
    and "keyword_score (strip s0) PROCEDURAL_KEYWORDS = Inr p"
    and "keyword_score (strip s0) EVASIVE_KEYWORDS = Inr e"
  shows "classify_sentence s0 =
           Inr (classify_scored (strip s0) (adjusted_scores (strip s0) d i p e))"
  using assms by (simp add: classify_sentence_def classify_sentence_with_def Let_def)

lemma classify_scored_fields:
  "text (classify_scored s scores) = s"
  "category (classify_scored s scores) =
     (if fst (snd (find_best scores)) < 1 / 10 then NEUTRAL else fst (find_best scores))"
  "confidence (classify_scored s scores) =
     (if fst (snd (find_best scores)) < 1 / 10 then 5 / 10
      else min (fst (snd (find_best scores))) 1)"
  "ClassifiedSentence.section_references (classify_scored s scores) =
     map fst (detect_rti_sections s)"
  "keywords_found (classify_scored s scores) = snd (snd (find_best scores))"
  by (simp_all add: classify_scored_def Let_def split_beta)

text \<open>
  C4, amended. The score table of \<open>classify_sentence\<close> lists the categories in the order
  Denial, Informative, Procedural, Evasive. For every sentence that is not blank and whose
  greatest adjusted score is at least the floor \<open>0.1\<close>, the category returned is that of
  the first entry of the table that attains the greatest score: the earliest in the order
  on a tie, the one strictly highest-scoring category otherwise.
\<close>

theorem classify_sentence_first_maximum:
  assumes "strip s0 \<noteq> []"
    and "keyword_score (strip s0) DENIAL_KEYWORDS = Inr d"
    and "keyword_score (strip s0) INFORMATIVE_KEYWORDS = Inr i"
    and "keyword_score (strip s0) PROCEDURAL_KEYWORDS = Inr p"
    and "keyword_score (strip s0) EVASIVE_KEYWORDS = Inr e"
    and "1 / 10 \<le> Max (set (map (fst \<circ> snd) (adjusted_scores (strip s0) d i p e)))"
  shows "map fst (adjusted_scores (strip s0) d i p e)
           = [DENIAL, INFORMATIVE, PROCEDURAL, EVASIVE]
       \<and> (\<exists>c. classify_sentence s0 = Inr c
              \<and> category c =
                  fst (hd (filter
                    (\<lambda>x. fst (snd x)
                           = Max (set (map (fst \<circ> snd) (adjusted_scores (strip s0) d i p e))))
                    (adjusted_scores (strip s0) d i p e))))"
proof -
  let ?scores = "adjusted_scores (strip s0) d i p e"
  let ?m = "Max (set (map (fst \<circ> snd) ?scores))"
  have ne: "?scores \<noteq> []"
    by (simp add: adjusted_scores_def Let_def)
  have best: "find_best ?scores = hd (filter (\<lambda>x. fst (snd x) = ?m) ?scores)"
    using assms(6) ne by (intro find_best_first_max) simp_all
  have "fst (snd (find_best ?scores)) = ?m"
    unfolding best using ne by (rule first_max_in_set(2))
  then have "category (classify_scored (strip s0) ?scores) = fst (find_best ?scores)"
    using assms(6) by (simp add: classify_scored_fields)
  then show ?thesis
    using classify_sentence_scored [OF assms(1-5)] best adjusted_scores_categories by simp
qed

text \<open>
  C9. For every sentence that is not blank and whose greatest adjusted score is positive
  but below the floor \<open>0.1\<close>, \<open>classify_sentence\<close> returns the category Neutral with
  confidence \<open>0.5\<close>, the sections detected in the sentence, and as \<open>keywords_found\<close> the
  matched keywords of the first category that attains the greatest score; that category
  is not Neutral and its matched keywords are not empty.
\<close>

theorem below_floor_neutral_keeps_keywords:
  assumes "strip s0 \<noteq> []"
    and "keyword_score (strip s0) DENIAL_KEYWORDS = Inr d"
    and "keyword_score (strip s0) INFORMATIVE_KEYWORDS = Inr i"
    and "keyword_score (strip s0) PROCEDURAL_KEYWORDS = Inr p"
    and "keyword_score (strip s0) EVASIVE_KEYWORDS = Inr e"
    and "0 < Max (set (map (fst \<circ> snd) (adjusted_scores (strip s0) d i p e)))"
    and "Max (set (map (fst \<circ> snd) (adjusted_scores (strip s0) d i p e))) < 1 / 10"
  shows "classify_sentence s0 =
           Inr \<lparr>text = strip s0, category = NEUTRAL, confidence = 5 / 10,
                section_references = map fst (detect_rti_sections (strip s0)),
                keywords_found =
                  snd (snd (hd (filter
                    (\<lambda>x. fst (snd x)
                           = Max (set (map (fst \<circ> snd) (adjusted_scores (strip s0) d i p e))))
                    (adjusted_scores (strip s0) d i p e))))\<rparr>
       \<and> fst (hd (filter
             (\<lambda>x. fst (snd x)
                    = Max (set (map (fst \<circ> snd) (adjusted_scores (strip s0) d i p e))))
             (adjusted_scores (strip s0) d i p e))) \<noteq> NEUTRAL
       \<and> snd (snd (hd (filter
             (\<lambda>x. fst (snd x)
                    = Max (set (map (fst \<circ> snd) (adjusted_scores (strip s0) d i p e))))
             (adjusted_scores (strip s0) d i p e)))) \<noteq> []"
proof -
  let ?scores = "adjusted_scores (strip s0) d i p e"
  let ?m = "Max (set (map (fst \<circ> snd) ?scores))"
  let ?best = "hd (filter (\<lambda>x. fst (snd x) = ?m) ?scores)"
  have ne: "?scores \<noteq> []"
    by (simp add: adjusted_scores_def Let_def)
  have best: "find_best ?scores = ?best"
    using assms(6) ne by (intro find_best_first_max) simp_all
  have in_set: "?best \<in> set ?scores" and sc: "fst (snd ?best) = ?m"
    using first_max_in_set [OF ne] by simp_all
  have kw: "snd (snd ?best) \<noteq> [] \<and> fst ?best \<noteq> NEUTRAL"
    using in_set
  proof (rule adjusted_scores_below_floor)
    show "0 < fst (snd ?best)" "fst (snd ?best) < 1 / 10"
      using sc assms(6,7) by simp_all
  qed (use assms(2-5) keyword_score_facts in blast)+
  have "classify_scored (strip s0) ?scores =
          \<lparr>text = strip s0, category = NEUTRAL, confidence = 5 / 10,
           section_references = map fst (detect_rti_sections (strip s0)),
           keywords_found = snd (snd ?best)\<rparr>"
    using sc assms(7) by (simp add: classify_scored_def Let_def split_beta best)
  then show ?thesis
    using classify_sentence_scored [OF assms(1-5)] kw by simp
qed

lemma tie_sentence_strip: "strip tie_sentence = tie_sentence"
  by code_simp

lemma tie_sentence_keywords:
  "keyword_score tie_sentence DENIAL_KEYWORDS = Inr (0, [])"
  "keyword_score tie_sentence INFORMATIVE_KEYWORDS = Inr (1 / 8, [''information is''])"
  "keyword_score tie_sentence PROCEDURAL_KEYWORDS = Inr (0, [])"
  "keyword_score tie_sentence EVASIVE_KEYWORDS = Inr (1 / 8, [''not maintained''])"
  by code_simp+

lemma tie_sentence_scores:
  "adjusted_scores tie_sentence (0, []) (1 / 8, [''information is'']) (0, [])
     (1 / 8, [''not maintained'']) =
     [(DENIAL, 0, []), (INFORMATIVE, 1 / 8, [''information is'']), (PROCEDURAL, 0, []),
      (EVASIVE, 1 / 8, [''not maintained''])]"
  by code_simp

theorem classify_sentence_first_maximum_witness:
  "strip tie_sentence \<noteq> []
   \<and> keyword_score tie_sentence INFORMATIVE_KEYWORDS = Inr (1 / 8, [''information is''])
   \<and> keyword_score tie_sentence EVASIVE_KEYWORDS = Inr (1 / 8, [''not maintained''])
   \<and> (\<exists>c. classify_sentence tie_sentence = Inr c \<and> category c = INFORMATIVE)"
  using classify_sentence_first_maximum
    [of tie_sentence "(0, [])" "(1 / 8, [''information is''])" "(0, [])"
        "(1 / 8, [''not maintained''])"]
  by (simp add: tie_sentence_strip tie_sentence_keywords tie_sentence_scores)
    (simp add: tie_sentence_def)

lemma denied_sentence_strip: "strip denied_sentence = denied_sentence"
  by code_simp

lemma denied_sentence_keywords:
  "keyword_score denied_sentence DENIAL_KEYWORDS = Inr (1 / 14, [''denied''])"
  "keyword_score denied_sentence INFORMATIVE_KEYWORDS = Inr (0, [])"
  "keyword_score denied_sentence PROCEDURAL_KEYWORDS = Inr (0, [])"
  "keyword_score denied_sentence EVASIVE_KEYWORDS = Inr (0, [])"
  by code_simp+

lemma denied_sentence_scores:
  "adjusted_scores denied_sentence (1 / 14, [''denied'']) (0, []) (0, []) (0, []) =
     [(DENIAL, 1 / 14, [''denied'']), (INFORMATIVE, 0, []), (PROCEDURAL, 0, []),
      (EVASIVE, 0, [])]"
  by code_simp

lemma denied_sentence_sections: "detect_rti_sections denied_sentence = []"
  by code_simp

text \<open>
  C4 as stated fails: in \<open>denied_sentence\<close> Denial is the one category with the greatest
  adjusted score, \<open>1 / 14\<close>, and the classifier returns Neutral.
\<close>

theorem unique_maximum_below_floor_is_neutral:
  "keyword_score denied_sentence DENIAL_KEYWORDS = Inr (1 / 14, [''denied''])
   \<and> keyword_score denied_sentence INFORMATIVE_KEYWORDS = Inr (0, [])
   \<and> keyword_score denied_sentence PROCEDURAL_KEYWORDS = Inr (0, [])
   \<and> keyword_score denied_sentence EVASIVE_KEYWORDS = Inr (0, [])
   \<and> adjusted_scores denied_sentence (1 / 14, [''denied'']) (0, []) (0, []) (0, []) =
       [(DENIAL, 1 / 14, [''denied'']), (INFORMATIVE, 0, []), (PROCEDURAL, 0, []),
        (EVASIVE, 0, [])]
   \<and> classify_sentence denied_sentence =
       Inr \<lparr>text = denied_sentence, category = NEUTRAL, confidence = 5 / 10,
            section_references = [], keywords_found = [''denied'']\<rparr>"
  using classify_sentence_scored [of denied_sentence, unfolded denied_sentence_strip,
      OF _ denied_sentence_keywords]
  by (simp add: denied_sentence_keywords denied_sentence_scores denied_sentence_sections
      classify_scored_def find_best_def Let_def)
    (simp add: denied_sentence_def)

lemma rejected_sentence_strip: "strip rejected_sentence = rejected_sentence"
  by code_simp

lemma rejected_sentence_keywords:
  "keyword_score rejected_sentence DENIAL_KEYWORDS = Inr (1 / 14, [''rejected''])"
  "keyword_score rejected_sentence INFORMATIVE_KEYWORDS = Inr (0, [])"
  "keyword_score rejected_sentence PROCEDURAL_KEYWORDS = Inr (0, [])"
  "keyword_score rejected_sentence EVASIVE_KEYWORDS = Inr (0, [])"
  by code_simp+

lemma rejected_sentence_scores:
  "adjusted_scores rejected_sentence (1 / 14, [''rejected'']) (0, []) (0, []) (0, []) =
     [(DENIAL, 1 / 14, [''rejected'']), (INFORMATIVE, 0, []), (PROCEDURAL, 0, []),
      (EVASIVE, 0, [])]"
  by code_simp

lemma rejected_sentence_sections:
  "map fst (detect_rti_sections rejected_sentence) = [''section_9'']"
  by code_simp

theorem below_floor_neutral_keeps_keywords_witness:
  "strip rejected_sentence \<noteq> []
   \<and> keyword_score rejected_sentence DENIAL_KEYWORDS = Inr (1 / 14, [''rejected''])
   \<and> classify_sentence rejected_sentence =
       Inr \<lparr>text = rejected_sentence, category = NEUTRAL, confidence = 5 / 10,
            section_references = [''section_9''], keywords_found = [''rejected'']\<rparr>"
  using below_floor_neutral_keeps_keywords
    [of rejected_sentence "(1 / 14, [''rejected''])" "(0, [])" "(0, [])" "(0, [])"]
  by (simp add: rejected_sentence_strip rejected_sentence_keywords rejected_sentence_scores
      rejected_sentence_sections)
    (simp add: rejected_sentence_def)

lemma scenario1_strip: "strip scenario1_sentence = scenario1_sentence"
  by code_simp

lemma scenario1_keywords:
  "keyword_score scenario1_sentence DENIAL_KEYWORDS =
     Inr (3 / 14, [''cannot be provided'', ''exempt'', ''section 8''])"
  "keyword_score scenario1_sentence INFORMATIVE_KEYWORDS = Inr (0, [])"
  "keyword_score scenario1_sentence PROCEDURAL_KEYWORDS = Inr (0, [])"
  "keyword_score scenario1_sentence EVASIVE_KEYWORDS = Inr (0, [])"
  by code_simp+

lemma scenario1_scores:
  "adjusted_scores scenario1_sentence
     (3 / 14, [''cannot be provided'', ''exempt'', ''section 8'']) (0, []) (0, []) (0, []) =
     [(DENIAL, 3 / 14 + 3 / 10, [''cannot be provided'', ''exempt'', ''section 8'']),
      (INFORMATIVE, 0, []), (PROCEDURAL, 0, []), (EVASIVE, 0, [])]"
  by code_simp

lemma scenario1_sections:
  "map fst (detect_rti_sections scenario1_sentence) = [''section_8'']"
  by code_simp

text \<open>
  C8. On the sentence of scenario 1 the Denial keyword score is \<open>3 / 14\<close>, the adjusted
  Denial score is that score plus the exemption bonus \<open>3 / 10\<close>, and \<open>classify_sentence\<close>
  returns the category Denial with the adjusted score as confidence and with \<open>section_8\<close>
  among its section references.
\<close>

theorem scenario1_denial_with_exemption_bonus:
  "keyword_score scenario1_sentence DENIAL_KEYWORDS =
     Inr (3 / 14, [''cannot be provided'', ''exempt'', ''section 8''])
   \<and> adjusted_scores scenario1_sentence
       (3 / 14, [''cannot be provided'', ''exempt'', ''section 8'']) (0, []) (0, []) (0, []) =
       [(DENIAL, 3 / 14 + 3 / 10, [''cannot be provided'', ''exempt'', ''section 8'']),
        (INFORMATIVE, 0, []), (PROCEDURAL, 0, []), (EVASIVE, 0, [])]
   \<and> classify_sentence scenario1_sentence =
       Inr \<lparr>text = scenario1_sentence, category = DENIAL, confidence = 3 / 14 + 3 / 10,
            section_references = [''section_8''],
            keywords_found = [''cannot be provided'', ''exempt'', ''section 8'']\<rparr>"
  using classify_sentence_scored [of scenario1_sentence, unfolded scenario1_strip,
      OF _ scenario1_keywords]
  by (simp add: scenario1_keywords scenario1_scores scenario1_sections
      classify_scored_def find_best_def Let_def)
    (simp add: scenario1_sentence_def)

section \<open>The two sentence segmenters\<close>

text \<open>
  C5 fails on the classification segmenter: it has no substitution for \<open>Rs.\<close>, so it
  splits \<open>Rs. 500 was credited.\<close> after the abbreviation and drops the three-character
  piece, while the fact-anchor segmenter keeps the sentence whole.
\<close>

theorem rs_abbreviation_not_protected:
  "rti_semantic_split_into_sentences ''Rs. 500 was credited.'' = [''500 was credited.'']
   \<and> fact_extractor_split_into_sentences ''Rs. 500 was credited.'' =
       [''Rs. 500 was credited.'']"
  by code_simp

end
